theory Spec2Isabelle
  imports Complex_Main "HOL-Library.Word"
begin

section \<open>Data of the swap orchestration (meteora\_dbc.py, constants.py)\<close>

text \<open>
  A public key is kept in its base-58 text form, the form in which constants.py writes
  the program addresses. A byte is an 8-bit word. Python integers are unbounded, so
  every amount is an \<open>int\<close>.
\<close>

type_synonym pubkey = string
type_synonym byte = "8 word"
type_synonym blockhash = string
type_synonym signature = string

definition METEORA_DBC_PROGRAM :: pubkey where
  "METEORA_DBC_PROGRAM = ''dbcij3LWUppWqq96dh6gJWwBifmcGfLSB5D4DuSMaqN''"

definition SYSTEM_PROGRAM :: pubkey where
  "SYSTEM_PROGRAM = ''11111111111111111111111111111111''"

definition TOKEN_PROGRAM_ID :: pubkey where
  "TOKEN_PROGRAM_ID = ''TokenkegQfeZyiNwAJbNbGKPFXCWuBvf9Ss623VQ5DA''"

definition POOL_AUTHORITY :: pubkey where
  "POOL_AUTHORITY = ''FhVo3mqL8PW5pH5U2CN4XE33DokiyZnUwuGpH2hmHLuM''"

definition CONFIG :: pubkey where
  "CONFIG = ''A5LRRhbspMvLGp8P4a7H9VLKaL5VuHKg8usLsNnA9k7E''"

definition REFERRAL_TOKEN_ACC :: pubkey where
  "REFERRAL_TOKEN_ACC = ''dbcij3LWUppWqq96dh6gJWwBifmcGfLSB5D4DuSMaqN''"

definition EVENT_AUTH :: pubkey where
  "EVENT_AUTH = ''8Ks12pbrD6PXxfty1hVQiE9sc289zgU1zHkvXhrSdriF''"

definition ACCOUNT_SPACE :: int where
  "ACCOUNT_SPACE = 165"

text \<open>
  The records that \<open>fetch_pool_state\<close> and \<open>fetch_pool_config\<close> hand back. Their
  classes live in modules outside the two source files; the fields below are the ones
  buy and sell read.
\<close>

record curve_point =
  sqrt_price :: int
  liquidity :: int

record base_fee_t =
  cliff_fee_numerator :: int

record pool_fees_t =
  base_fee :: base_fee_t
  protocol_fee_percent :: int
  referral_fee_percent :: int

record pool_config =
  quote_mint :: pubkey
  token_decimal :: int
  curve :: "curve_point list"
  pool_fees :: pool_fees_t

record pool_state =
  config :: pubkey
  pool :: pubkey
  base_mint :: pubkey
  base_vault :: pubkey
  quote_vault :: pubkey
  cur_sqrt_price :: int

text \<open>\<open>cur_sqrt_price\<close> is the field \<open>pool_state.sqrt_price\<close> of the source.\<close>

datatype keypair = Keypair (pubkey_of: pubkey)

text \<open>\<open>AccountMeta(pubkey, is_signer, is_writable)\<close>, in the argument order of the source.\<close>

datatype account_meta = AccountMeta (meta_pubkey: pubkey) (is_signer: bool) (is_writable: bool)

text \<open>
  The instructions that buy and sell put into a transaction. The library constructors
  are kept as data: each carries the arguments the source passes.
\<close>

datatype instruction =
    Set_compute_unit_limit int
  | Set_compute_unit_price int
  | Create_account_with_seed (from_pubkey: pubkey) (to_pubkey: pubkey) (seed_base: pubkey)
      (seed: string) (lamports: int) (space: int) (owner_program: pubkey)
  | Initialize_account (init_program: pubkey) (init_account: pubkey) (init_mint: pubkey)
      (init_owner: pubkey)
  | Create_associated_token_account (ata_payer: pubkey) (ata_owner: pubkey) (ata_mint: pubkey)
  | Close_account (close_program: pubkey) (closed_account: pubkey) (close_dest: pubkey)
      (close_owner: pubkey)
  | Instruction (program_id: pubkey) (ix_data: "byte list") (ix_accounts: "account_meta list")

text \<open>
  A Python exception: whether its class derives from \<open>Exception\<close> (KeyboardInterrupt
  and SystemExit do not), the name of its class, and what \<open>str(e)\<close> gives.
\<close>

datatype exc = Exc (derives_Exception: bool) (exc_class: string) (exc_str: string)

type_synonym message = "pubkey \<times> instruction list \<times> blockhash"
type_synonym transaction = "message \<times> keypair list"

text \<open>The arguments of one call of the quotation functions of \<open>swap_estimate\<close>.\<close>

record estimate_args =
  amount_in :: int
  cliff_fee_num :: int
  protocol_fee_pct :: int
  referral_fee_pct :: int
  cur_sqrt :: int
  curve_arg :: "(int \<times> int) list"

text \<open>\<open>curve_arg\<close> is the keyword argument \<open>curve\<close> of the source.\<close>

text \<open>One constructor for each print statement of the two functions.\<close>

datatype log_line =
    Starting_buy string
  | Starting_sell string
  | Percentage_must_be_between_1_and_100
  | Fetching_pool_state
  | Fetching_pool_config
  | Retrieving_base_token_balance
  | Base_token_balance_is_zero
  | Quote_to_base_estimate int
  | Base_to_quote_estimate int
  | Checking_for_existing_base_token_account
  | Existing_base_token_account_found pubkey
  | Will_create_base_token_ATA pubkey
  | Getting_associated_base_token_account_address
  | Generating_seed
  | Creating_and_initializing_quote_token_account
  | Creating_swap_instruction
  | Preparing_to_close_quote_token_account
  | Preparing_to_close_base_token_account
  | Compiling_transaction_message
  | Sending_transaction
  | Transaction_signature signature
  | Confirming_transaction
  | Transaction_confirmed bool
  | Error_occurred_during_transaction string

text \<open>What a run does that is visible outside: a line printed, or a collaborator called.\<close>

datatype event =
    Print log_line
  | Call_fetch_pool_state string
  | Call_fetch_pool_config pubkey
  | Call_swap_quote_to_base estimate_args
  | Call_swap_base_to_quote estimate_args
  | Call_get_token_accounts_by_owner pubkey pubkey
  | Call_get_token_balance pubkey pubkey
  | Call_get_associated_token_address pubkey pubkey
  | Call_urandom nat
  | Call_create_with_seed pubkey string pubkey
  | Call_get_min_balance_rent
  | Call_get_latest_blockhash
  | Call_try_compile pubkey "instruction list" blockhash
  | Call_VersionedTransaction message "keypair list"
  | Call_send_transaction transaction
  | Call_confirm_txn signature

text \<open>
  The collaborators: the RPC client, the modules of the repository that buy and sell
  import (\<open>pool_utils\<close>, \<open>swap_estimate\<close>, \<open>common_utils\<close>) and the library calls.
  Each may raise. The two products in floating point, \<open>int(quote_in * 10 ** decimals)\<close>
  and \<open>int(base_balance * (percentage / 100))\<close>, are taken from here as well, since
  double arithmetic is not modelled. The estimate is opaque to buy and sell (it is only
  printed) and is kept as an \<open>int\<close>. A token balance is \<open>None\<close> or a number.
\<close>

record env =
  fetch_pool_state :: "string \<Rightarrow> exc + pool_state"
  fetch_pool_config :: "pubkey \<Rightarrow> exc + pool_config"
  swap_quote_to_base :: "estimate_args \<Rightarrow> exc + int"
  swap_base_to_quote :: "estimate_args \<Rightarrow> exc + int"
  get_token_accounts_by_owner :: "pubkey \<Rightarrow> pubkey \<Rightarrow> exc + pubkey list"
  get_token_balance :: "pubkey \<Rightarrow> pubkey \<Rightarrow> exc + rat option"
  get_associated_token_address :: "pubkey \<Rightarrow> pubkey \<Rightarrow> exc + pubkey"
  urandom :: "nat \<Rightarrow> exc + byte list"
  urlsafe_b64encode :: "byte list \<Rightarrow> string"
  create_with_seed :: "pubkey \<Rightarrow> string \<Rightarrow> pubkey \<Rightarrow> exc + pubkey"
  get_min_balance_rent_for_exempt_for_account :: "exc + int"
  get_latest_blockhash :: "exc + blockhash"
  try_compile :: "pubkey \<Rightarrow> instruction list \<Rightarrow> blockhash \<Rightarrow> exc + message"
  VersionedTransaction :: "message \<Rightarrow> keypair list \<Rightarrow> exc + transaction"
  send_transaction :: "transaction \<Rightarrow> exc + signature"
  confirm_txn :: "signature \<Rightarrow> exc + bool"
  int_quote_in_times_pow10 :: "rat \<Rightarrow> int \<Rightarrow> exc + int"
  int_balance_times_percentage :: "rat \<Rightarrow> int \<Rightarrow> exc + int"

section \<open>Running a function body: a trace, and a value or an exception\<close>

type_synonym 'a run = "event list \<Rightarrow> event list \<times> (exc + 'a)"

definition then_do :: "'a run \<Rightarrow> ('a \<Rightarrow> 'b run) \<Rightarrow> 'b run" where
  "then_do m f = (\<lambda>t. case m t of (t', Inl e) \<Rightarrow> (t', Inl e) | (t', Inr x) \<Rightarrow> f x t')"

definition say :: "log_line \<Rightarrow> unit run" where
  "say l = (\<lambda>t. (t @ [Print l], Inr ()))"

definition call :: "event \<Rightarrow> exc + 'a \<Rightarrow> 'a run" where
  "call ev r = (\<lambda>t. (t @ [ev], r))"

definition pure_step :: "exc + 'a \<Rightarrow> 'a run" where
  "pure_step r = (\<lambda>t. (t, r))"

definition return_value :: "'a \<Rightarrow> 'a run" where
  "return_value x = (\<lambda>t. (t, Inr x))"

section \<open>The swap instruction\<close>

text \<open>\<open>struct.pack("<Q", n)\<close>: eight bytes, least significant first; struct.error outside
  the range of an unsigned 64-bit integer (the text of its message is the interpreter's
  and plays no part below).\<close>

fun le_bytes :: "nat \<Rightarrow> int \<Rightarrow> byte list" where
  "le_bytes 0 n = []"
| "le_bytes (Suc k) n = word_of_int (n mod 256) # le_bytes k (n div 256)"

definition struct_error :: exc where
  "struct_error = Exc True ''struct.error'' ''argument out of range''"

definition pack_Q :: "int \<Rightarrow> exc + byte list" where
  "pack_Q n = (if 0 \<le> n \<and> n < 2 ^ 64 then Inr (le_bytes 8 n) else Inl struct_error)"

text \<open>\<open>bytearray.fromhex("f8c69e91e17587c8")\<close>\<close>

definition discriminator :: "byte list" where
  "discriminator = [0xf8, 0xc6, 0x9e, 0x91, 0xe1, 0x75, 0x87, 0xc8]"

text \<open>Lines 146 to 148 and 298 to 300: the discriminator, extended by the two packed
  integers in turn.\<close>

definition swap_data :: "int \<Rightarrow> int \<Rightarrow> exc + byte list" where
  "swap_data amount min_amount_out =
     (case pack_Q amount of
        Inl e \<Rightarrow> Inl e
      | Inr b1 \<Rightarrow>
          (case pack_Q min_amount_out of
             Inl e \<Rightarrow> Inl e
           | Inr b2 \<Rightarrow> Inr ((discriminator @ b1) @ b2)))"

text \<open>Lines 129 to 145: the account list of buy.\<close>

definition buy_accounts ::
  "pool_state \<Rightarrow> pool_config \<Rightarrow> keypair \<Rightarrow> pubkey \<Rightarrow> pubkey \<Rightarrow> account_meta list" where
  "buy_accounts pool_state pool_config payer_keypair quote_token_account base_token_account =
     [ AccountMeta POOL_AUTHORITY False False,
       AccountMeta (config pool_state) False False,
       AccountMeta (pool pool_state) False True,
       AccountMeta quote_token_account False True,
       AccountMeta base_token_account False True,
       AccountMeta (base_vault pool_state) False True,
       AccountMeta (quote_vault pool_state) False True,
       AccountMeta (base_mint pool_state) False False,
       AccountMeta (quote_mint pool_config) False False,
       AccountMeta (pubkey_of payer_keypair) True True,
       AccountMeta TOKEN_PROGRAM_ID False False,
       AccountMeta TOKEN_PROGRAM_ID False False,
       AccountMeta REFERRAL_TOKEN_ACC False False,
       AccountMeta EVENT_AUTH False False,
       AccountMeta METEORA_DBC_PROGRAM False False ]"

text \<open>Lines 281 to 297: the account list of sell.\<close>

definition sell_accounts ::
  "pool_state \<Rightarrow> pool_config \<Rightarrow> keypair \<Rightarrow> pubkey \<Rightarrow> pubkey \<Rightarrow> account_meta list" where
  "sell_accounts pool_state pool_config payer_keypair quote_token_account base_token_account =
     [ AccountMeta POOL_AUTHORITY False False,
       AccountMeta (config pool_state) False False,
       AccountMeta (pool pool_state) False True,
       AccountMeta base_token_account False True,
       AccountMeta quote_token_account False True,
       AccountMeta (base_vault pool_state) False True,
       AccountMeta (quote_vault pool_state) False True,
       AccountMeta (base_mint pool_state) False False,
       AccountMeta (quote_mint pool_config) False False,
       AccountMeta (pubkey_of payer_keypair) True True,
       AccountMeta TOKEN_PROGRAM_ID False False,
       AccountMeta TOKEN_PROGRAM_ID False False,
       AccountMeta REFERRAL_TOKEN_ACC False False,
       AccountMeta EVENT_AUTH False False,
       AccountMeta METEORA_DBC_PROGRAM False False ]"

text \<open>
  The fixed account order in the words of the specification (section 4.4), for
  comparison with the two lists above: fifteen roles, of which the fourth and fifth are
  the input token account and the output token account.
\<close>

definition swap_account_schema ::
  "pool_state \<Rightarrow> pool_config \<Rightarrow> keypair \<Rightarrow> pubkey \<Rightarrow> pubkey \<Rightarrow> account_meta list" where
  "swap_account_schema pool_state pool_config fee_payer input_token_account
     output_token_account =
     [ AccountMeta POOL_AUTHORITY False False,
       AccountMeta (config pool_state) False False,
       AccountMeta (pool pool_state) False True,
       AccountMeta input_token_account False True,
       AccountMeta output_token_account False True,
       AccountMeta (base_vault pool_state) False True,
       AccountMeta (quote_vault pool_state) False True,
       AccountMeta (base_mint pool_state) False False,
       AccountMeta (quote_mint pool_config) False False,
       AccountMeta (pubkey_of fee_payer) True True,
       AccountMeta TOKEN_PROGRAM_ID False False,
       AccountMeta TOKEN_PROGRAM_ID False False,
       AccountMeta REFERRAL_TOKEN_ACC False False,
       AccountMeta EVENT_AUTH False False,
       AccountMeta METEORA_DBC_PROGRAM False False ]"

text \<open>The list comprehension of lines 56 to 60 and 215 to 219.\<close>

fun curve_of :: "curve_point list \<Rightarrow> (int \<times> int) list" where
  "curve_of [] = []"
| "curve_of (pt # pts) =
     (if sqrt_price pt \<noteq> 0 then (sqrt_price pt, liquidity pt) # curve_of pts
      else curve_of pts)"

section \<open>buy and sell\<close>

text \<open>
  What a caller of buy or sell sees: a boolean returned, or an exception that left the
  function.
\<close>

datatype outcome = Returns bool | Raises exc

text \<open>
  \<open>try: body  except Exception as e: print("Error occurred during transaction:", e);
  return False\<close>. The clause catches the exceptions whose class derives from
  \<open>Exception\<close>; any other leaves the function.
\<close>

definition try_except_Exception :: "bool run \<Rightarrow> event list \<times> outcome" where
  "try_except_Exception body =
     (case body [] of
        (t, Inr b) \<Rightarrow> (t, Returns b)
      | (t, Inl e) \<Rightarrow>
          if derives_Exception e
          then (t @ [Print (Error_occurred_during_transaction (exc_str e))], Returns False)
          else (t, Raises e))"

text \<open>Lines 313 to 320 and 161 to 169: the instruction lists.\<close>

definition buy_instructions ::
  "int \<Rightarrow> int \<Rightarrow> instruction \<Rightarrow> instruction \<Rightarrow> instruction option \<Rightarrow> instruction \<Rightarrow>
   instruction \<Rightarrow> instruction list" where
  "buy_instructions unit_budget unit_price create_quote_token_account_ix
     init_quote_token_account_ix base_account_ix swap_instr close_quote_token_account_ix =
     ([ Set_compute_unit_limit unit_budget,
        Set_compute_unit_price unit_price,
        create_quote_token_account_ix,
        init_quote_token_account_ix ]
      @ (case base_account_ix of Some ix \<Rightarrow> [ix] | None \<Rightarrow> []))
     @ [swap_instr, close_quote_token_account_ix]"

definition buy_body ::
  "env \<Rightarrow> keypair \<Rightarrow> string \<Rightarrow> rat \<Rightarrow> int \<Rightarrow> int \<Rightarrow> int \<Rightarrow> bool run" where
  "buy_body client payer_keypair pool_str quote_in slippage unit_budget unit_price =
   then_do (say (Starting_buy pool_str)) (\<lambda>_.
   then_do (say Fetching_pool_state) (\<lambda>_.
   then_do (call (Call_fetch_pool_state pool_str) (fetch_pool_state client pool_str))
     (\<lambda>pool_state.
   then_do (say Fetching_pool_config) (\<lambda>_.
   then_do (call (Call_fetch_pool_config (config pool_state))
              (fetch_pool_config client (config pool_state)))
     (\<lambda>pool_config.
   let quote_token_decimals = token_decimal pool_config in
   then_do (pure_step (int_quote_in_times_pow10 client quote_in quote_token_decimals))
     (\<lambda>quote_amount_in.
   let min_base_amount_out = 0;
       estimate_call =
         \<lparr> amount_in = quote_amount_in,
           cliff_fee_num = cliff_fee_numerator (base_fee (pool_fees pool_config)),
           protocol_fee_pct = protocol_fee_percent (pool_fees pool_config),
           referral_fee_pct = referral_fee_percent (pool_fees pool_config),
           cur_sqrt = cur_sqrt_price pool_state,
           curve_arg = curve_of (curve pool_config) \<rparr> in
   then_do (call (Call_swap_quote_to_base estimate_call)
              (swap_quote_to_base client estimate_call))
     (\<lambda>estimate.
   then_do (say (Quote_to_base_estimate estimate)) (\<lambda>_.
   then_do (say Checking_for_existing_base_token_account) (\<lambda>_.
   then_do (call (Call_get_token_accounts_by_owner (pubkey_of payer_keypair)
                    (base_mint pool_state))
              (get_token_accounts_by_owner client (pubkey_of payer_keypair)
                 (base_mint pool_state)))
     (\<lambda>base_account_check.
   then_do
     (case base_account_check of
        found # _ \<Rightarrow>
          then_do (say (Existing_base_token_account_found found)) (\<lambda>_.
          return_value (found, None))
      | [] \<Rightarrow>
          then_do (call (Call_get_associated_token_address (pubkey_of payer_keypair)
                           (base_mint pool_state))
                     (get_associated_token_address client (pubkey_of payer_keypair)
                        (base_mint pool_state)))
            (\<lambda>ata.
          then_do (say (Will_create_base_token_ATA ata)) (\<lambda>_.
          return_value
            (ata,
             Some (Create_associated_token_account (pubkey_of payer_keypair)
                     (pubkey_of payer_keypair) (base_mint pool_state))))))
     (\<lambda>(base_token_account, base_account_ix).
   then_do (say Generating_seed) (\<lambda>_.
   then_do (call (Call_urandom 24) (urandom client 24)) (\<lambda>random_bytes.
   let seed = urlsafe_b64encode client random_bytes in
   then_do (call (Call_create_with_seed (pubkey_of payer_keypair) seed TOKEN_PROGRAM_ID)
              (create_with_seed client (pubkey_of payer_keypair) seed TOKEN_PROGRAM_ID))
     (\<lambda>quote_token_account.
   then_do (call Call_get_min_balance_rent
              (get_min_balance_rent_for_exempt_for_account client))
     (\<lambda>quote_rent.
   then_do (say Creating_and_initializing_quote_token_account) (\<lambda>_.
   let create_quote_token_account_ix =
         Create_account_with_seed (pubkey_of payer_keypair) quote_token_account
           (pubkey_of payer_keypair) seed (quote_rent + quote_amount_in) ACCOUNT_SPACE
           TOKEN_PROGRAM_ID;
       init_quote_token_account_ix =
         Initialize_account TOKEN_PROGRAM_ID quote_token_account (quote_mint pool_config)
           (pubkey_of payer_keypair) in
   then_do (say Creating_swap_instruction) (\<lambda>_.
   let accounts =
         buy_accounts pool_state pool_config payer_keypair quote_token_account
           base_token_account in
   then_do (pure_step (swap_data quote_amount_in min_base_amount_out)) (\<lambda>data.
   let swap_instr = Instruction METEORA_DBC_PROGRAM data accounts in
   then_do (say Preparing_to_close_quote_token_account) (\<lambda>_.
   let close_quote_token_account_ix =
         Close_account TOKEN_PROGRAM_ID quote_token_account (pubkey_of payer_keypair)
           (pubkey_of payer_keypair);
       instructions =
         buy_instructions unit_budget unit_price create_quote_token_account_ix
           init_quote_token_account_ix base_account_ix swap_instr
           close_quote_token_account_ix in
   then_do (say Compiling_transaction_message) (\<lambda>_.
   then_do (call Call_get_latest_blockhash (get_latest_blockhash client)) (\<lambda>blockhash.
   then_do (call (Call_try_compile (pubkey_of payer_keypair) instructions blockhash)
              (try_compile client (pubkey_of payer_keypair) instructions blockhash))
     (\<lambda>compiled_message.
   then_do (say Sending_transaction) (\<lambda>_.
   then_do (call (Call_VersionedTransaction compiled_message [payer_keypair])
              (VersionedTransaction client compiled_message [payer_keypair]))
     (\<lambda>txn.
   then_do (call (Call_send_transaction txn) (send_transaction client txn)) (\<lambda>txn_sig.
   then_do (say (Transaction_signature txn_sig)) (\<lambda>_.
   then_do (say Confirming_transaction) (\<lambda>_.
   then_do (call (Call_confirm_txn txn_sig) (confirm_txn client txn_sig)) (\<lambda>confirmed.
   then_do (say (Transaction_confirmed confirmed)) (\<lambda>_.
   return_value confirmed)))))))))))))))))))))))))))))"

definition buy ::
  "env \<Rightarrow> keypair \<Rightarrow> string \<Rightarrow> rat \<Rightarrow> int \<Rightarrow> int \<Rightarrow> int \<Rightarrow> event list \<times> outcome" where
  "buy client payer_keypair pool_str quote_in slippage unit_budget unit_price =
     try_except_Exception
       (buy_body client payer_keypair pool_str quote_in slippage unit_budget unit_price)"

text \<open>Lines 313 to 332: six instructions, and the closing of the base token account
  appended when \<open>percentage == 100\<close>.\<close>

definition sell_instructions ::
  "int \<Rightarrow> int \<Rightarrow> instruction \<Rightarrow> instruction \<Rightarrow> instruction \<Rightarrow> instruction \<Rightarrow>
   instruction list" where
  "sell_instructions unit_budget unit_price create_quote_token_account_ix
     init_quote_token_account_ix swap_ix close_quote_token_account_ix =
     [ Set_compute_unit_limit unit_budget,
       Set_compute_unit_price unit_price,
       create_quote_token_account_ix,
       init_quote_token_account_ix,
       swap_ix,
       close_quote_token_account_ix ]"

text \<open>\<open>not base_balance\<close>: true of \<open>None\<close> and of zero. Past that check the balance is
  a number, which \<open>the\<close> reads in \<open>sell_body\<close>.\<close>

definition falsy :: "rat option \<Rightarrow> bool" where
  "falsy base_balance = (case base_balance of None \<Rightarrow> True | Some b \<Rightarrow> b = 0)"

definition sell_body ::
  "env \<Rightarrow> keypair \<Rightarrow> string \<Rightarrow> int \<Rightarrow> int \<Rightarrow> int \<Rightarrow> int \<Rightarrow> bool run" where
  "sell_body client payer_keypair pool_str percentage slippage unit_budget unit_price =
   then_do (say (Starting_sell pool_str)) (\<lambda>_.
   if \<not> (1 \<le> percentage \<and> percentage \<le> 100) then
     then_do (say Percentage_must_be_between_1_and_100) (\<lambda>_.
     return_value False)
   else
   then_do (say Fetching_pool_state) (\<lambda>_.
   then_do (call (Call_fetch_pool_state pool_str) (fetch_pool_state client pool_str))
     (\<lambda>pool_state.
   then_do (say Fetching_pool_config) (\<lambda>_.
   then_do (call (Call_fetch_pool_config (config pool_state))
              (fetch_pool_config client (config pool_state)))
     (\<lambda>pool_config.
   then_do (say Retrieving_base_token_balance) (\<lambda>_.
   then_do (call (Call_get_token_balance (pubkey_of payer_keypair) (base_mint pool_state))
              (get_token_balance client (pubkey_of payer_keypair) (base_mint pool_state)))
     (\<lambda>base_balance.
   if falsy base_balance then
     then_do (say Base_token_balance_is_zero) (\<lambda>_.
     return_value False)
   else
   then_do (pure_step (int_balance_times_percentage client (the base_balance) percentage))
     (\<lambda>base_amount_in.
   let min_quote_amount_out = 0;
       estimate_call =
         \<lparr> amount_in = base_amount_in,
           cliff_fee_num = cliff_fee_numerator (base_fee (pool_fees pool_config)),
           protocol_fee_pct = protocol_fee_percent (pool_fees pool_config),
           referral_fee_pct = referral_fee_percent (pool_fees pool_config),
           cur_sqrt = cur_sqrt_price pool_state,
           curve_arg = curve_of (curve pool_config) \<rparr> in
   then_do (call (Call_swap_base_to_quote estimate_call)
              (swap_base_to_quote client estimate_call))
     (\<lambda>estimate.
   then_do (say (Base_to_quote_estimate estimate)) (\<lambda>_.
   then_do (say Getting_associated_base_token_account_address) (\<lambda>_.
   then_do (call (Call_get_associated_token_address (pubkey_of payer_keypair)
                    (base_mint pool_state))
              (get_associated_token_address client (pubkey_of payer_keypair)
                 (base_mint pool_state)))
     (\<lambda>base_token_account.
   then_do (say Generating_seed) (\<lambda>_.
   then_do (call (Call_urandom 24) (urandom client 24)) (\<lambda>random_bytes.
   let seed = urlsafe_b64encode client random_bytes in
   then_do (call (Call_create_with_seed (pubkey_of payer_keypair) seed TOKEN_PROGRAM_ID)
              (create_with_seed client (pubkey_of payer_keypair) seed TOKEN_PROGRAM_ID))
     (\<lambda>quote_token_account.
   then_do (call Call_get_min_balance_rent
              (get_min_balance_rent_for_exempt_for_account client))
     (\<lambda>quote_rent.
   then_do (say Creating_and_initializing_quote_token_account) (\<lambda>_.
   let create_quote_token_account_ix =
         Create_account_with_seed (pubkey_of payer_keypair) quote_token_account
           (pubkey_of payer_keypair) seed quote_rent ACCOUNT_SPACE TOKEN_PROGRAM_ID;
       init_quote_token_account_ix =
         Initialize_account TOKEN_PROGRAM_ID quote_token_account (quote_mint pool_config)
           (pubkey_of payer_keypair) in
   then_do (say Creating_swap_instruction) (\<lambda>_.
   let accounts =
         sell_accounts pool_state pool_config payer_keypair quote_token_account
           base_token_account in
   then_do (pure_step (swap_data base_amount_in min_quote_amount_out)) (\<lambda>data.
   let swap_ix = Instruction METEORA_DBC_PROGRAM data accounts in
   then_do (say Preparing_to_close_quote_token_account) (\<lambda>_.
   let close_quote_token_account_ix =
         Close_account TOKEN_PROGRAM_ID quote_token_account (pubkey_of payer_keypair)
           (pubkey_of payer_keypair);
       instructions =
         sell_instructions unit_budget unit_price create_quote_token_account_ix
           init_quote_token_account_ix swap_ix close_quote_token_account_ix in
   then_do
     (if percentage = 100 then
        then_do (say Preparing_to_close_base_token_account) (\<lambda>_.
        let close_base_token_account_ix =
              Close_account TOKEN_PROGRAM_ID base_token_account (pubkey_of payer_keypair)
                (pubkey_of payer_keypair) in
        return_value (instructions @ [close_base_token_account_ix]))
      else return_value instructions)
     (\<lambda>instructions.
   then_do (say Compiling_transaction_message) (\<lambda>_.
   then_do (call Call_get_latest_blockhash (get_latest_blockhash client)) (\<lambda>blockhash.
   then_do (call (Call_try_compile (pubkey_of payer_keypair) instructions blockhash)
              (try_compile client (pubkey_of payer_keypair) instructions blockhash))
     (\<lambda>compiled_msg.
   then_do (say Sending_transaction) (\<lambda>_.
   then_do (call (Call_VersionedTransaction compiled_msg [payer_keypair])
              (VersionedTransaction client compiled_msg [payer_keypair]))
     (\<lambda>txn.
   then_do (call (Call_send_transaction txn) (send_transaction client txn)) (\<lambda>sig.
   then_do (say (Transaction_signature sig)) (\<lambda>_.
   then_do (say Confirming_transaction) (\<lambda>_.
   then_do (call (Call_confirm_txn sig) (confirm_txn client sig)) (\<lambda>confirmed.
   then_do (say (Transaction_confirmed confirmed)) (\<lambda>_.
   return_value confirmed)))))))))))))))))))))))))))))))"

definition sell ::
  "env \<Rightarrow> keypair \<Rightarrow> string \<Rightarrow> int \<Rightarrow> int \<Rightarrow> int \<Rightarrow> int \<Rightarrow> event list \<times> outcome" where
  "sell client payer_keypair pool_str percentage slippage unit_budget unit_price =
     try_except_Exception
       (sell_body client payer_keypair pool_str percentage slippage unit_budget unit_price)"

text \<open>Reading a little-endian byte string back as a number.\<close>

fun le_value :: "byte list \<Rightarrow> int" where
  "le_value [] = 0"
| "le_value (b # bs) = uint b + 256 * le_value bs"

section \<open>The quotation engine, from the specification\<close>

text \<open>
  Modelled from the spec: the quotation functions \<open>swap_quote_to_base\<close> and
  \<open>swap_base_to_quote\<close> of module \<open>swap_estimate\<close> are not among the source files.
  What follows is the engine of sections 3, 4.2 and 4.3 of the specification. Amounts
  of tokens, fee rates and curve points are the unsigned integers of section 3. The
  specification gives the formulas of the walk without rounding and leaves the rounding
  open (section 9), so the walk is exact: the output and the price it ends at are
  rationals. Two things the specification leaves unnamed are parameters of the model:
  the fixed fee denominator, and which liquidity the range between two consecutive
  points carries.
\<close>

datatype direction = QuoteToBase | BaseToQuote

datatype curve_error = CurveError_Empty | CurveError_NonMonotonic

datatype quote_error = QuoteError_AmountTooSmall | QuoteError_Curve curve_error

text \<open>Modelled from the spec: SwapQuote (section 3).\<close>

record swap_quote =
  amount_out :: rat
  fee_total :: nat
  protocol_fee :: nat
  referral_fee :: nat
  ending_sqrt_price :: rat

text \<open>A curve point is \<open>(sqrt_price, liquidity)\<close>; a segment is
  \<open>(lower_sqrt_price, upper_sqrt_price, liquidity)\<close>.\<close>

type_synonym point = "nat \<times> nat"
type_synonym segment = "nat \<times> nat \<times> nat"

text \<open>
  Modelled from the spec: construction of the Curve Model (section 4.2). Points with
  \<open>sqrt_price == 0\<close> are excluded; construction fails with Empty if fewer than two
  points remain and with NonMonotonic if the prices are not strictly increasing.
\<close>

definition curve_new :: "point list \<Rightarrow> curve_error + point list" where
  "curve_new points =
     (let valid = filter (\<lambda>pt. fst pt \<noteq> 0) points in
      if length valid < 2 then Inl CurveError_Empty
      else if \<not> sorted_wrt (<) (map fst valid) then Inl CurveError_NonMonotonic
      else Inr valid)"

text \<open>
  Modelled from the spec: \<open>segments()\<close> (section 4.2), the ranges between consecutive
  points. \<open>liq\<close> gives the liquidity of the range between two points.
\<close>

fun segments :: "(point \<Rightarrow> point \<Rightarrow> nat) \<Rightarrow> point list \<Rightarrow> segment list" where
  "segments liq (a # b # rest) = (fst a, fst b, liq a b) # segments liq (b # rest)"
| "segments liq _ = []"

text \<open>
  Modelled from the spec: \<open>locate(sqrt_price)\<close> (section 4.2), the index of the segment
  that contains the price, or of the nearest boundary segment when the price is outside
  all ranges.
\<close>

fun locate :: "rat \<Rightarrow> segment list \<Rightarrow> nat" where
  "locate p [] = 0"
| "locate p [s] = 0"
| "locate p ((p_lo, p_hi, L) # s # rest) =
     (if p \<le> of_nat p_hi then 0 else Suc (locate p (s # rest)))"

text \<open>
  Modelled from the spec: the curve walk for quote to base (section 4.3, steps 2 and 3).
  Crossing from \<open>p_cur\<close> to \<open>p_hi\<close> costs \<open>L * (p_hi - p_cur)\<close> of quote and gives
  \<open>L * (1/p_cur - 1/p_hi)\<close> of base; if less than that remains the walk stops at the
  price \<open>p_target\<close> with \<open>L * (p_target - p_cur) = remaining\<close>. When the segments
  are used up the walk returns what it has.
\<close>

fun walk_up :: "segment list \<Rightarrow> rat \<Rightarrow> rat \<Rightarrow> rat \<Rightarrow> rat \<times> rat" where
  "walk_up [] remaining p_cur out = (out, p_cur)"
| "walk_up ((p_lo, p_hi, L) # rest) remaining p_cur out =
     (if remaining < of_nat L * (of_nat p_hi - p_cur) then
        (let p_target = p_cur + remaining / of_nat L
         in (out + of_nat L * (1 / p_cur - 1 / p_target), p_target))
      else walk_up rest (remaining - of_nat L * (of_nat p_hi - p_cur)) (of_nat p_hi)
             (out + of_nat L * (1 / p_cur - 1 / of_nat p_hi)))"

text \<open>
  Modelled from the spec: the curve walk for base to quote, symmetric: crossing down to
  \<open>p_lo\<close> costs \<open>L * (1/p_lo - 1/p_cur)\<close> of base and gives \<open>L * (p_cur - p_lo)\<close>
  of quote.
\<close>

fun walk_down :: "segment list \<Rightarrow> rat \<Rightarrow> rat \<Rightarrow> rat \<Rightarrow> rat \<times> rat" where
  "walk_down [] remaining p_cur out = (out, p_cur)"
| "walk_down ((p_lo, p_hi, L) # rest) remaining p_cur out =
     (if remaining < of_nat L * (1 / of_nat p_lo - 1 / p_cur) then
        (let p_target = 1 / (1 / p_cur + remaining / of_nat L)
         in (out + of_nat L * (p_cur - p_target), p_target))
      else walk_down rest (remaining - of_nat L * (1 / of_nat p_lo - 1 / p_cur)) (of_nat p_lo)
             (out + of_nat L * (p_cur - of_nat p_lo)))"

text \<open>
  Modelled from the spec: the segments a trade has before it, from the one the price is
  in, upwards for quote to base and downwards for base to quote.
\<close>

definition remaining_segments :: "direction \<Rightarrow> rat \<Rightarrow> segment list \<Rightarrow> segment list" where
  "remaining_segments dir p segs =
     (case dir of
        QuoteToBase \<Rightarrow> drop (locate p segs) segs
      | BaseToQuote \<Rightarrow> rev (take (Suc (locate p segs)) segs))"

text \<open>
  Modelled from the spec: \<open>quote\<close> (section 4.3): fee extraction on the input,
  AmountTooSmall if the amount is less than the fee, the walk with the net input, and
  the result. The arguments after the direction are the amount and the fields of the
  pool configuration and pool state that the engine reads.
\<close>

definition quote ::
  "nat \<Rightarrow> (point \<Rightarrow> point \<Rightarrow> nat) \<Rightarrow> direction \<Rightarrow> nat \<Rightarrow> nat \<Rightarrow> nat \<Rightarrow> nat \<Rightarrow> nat \<Rightarrow> point list
   \<Rightarrow> quote_error + swap_quote" where
  "quote FEE_DENOMINATOR liq dir amount cliff_numerator protocol_percent
     referral_percent state_sqrt_price points =
     (case curve_new points of
        Inl e \<Rightarrow> Inl (QuoteError_Curve e)
      | Inr valid \<Rightarrow>
          (let ft = amount * cliff_numerator div FEE_DENOMINATOR;
               pf = ft * protocol_percent div 100;
               rf = ft * referral_percent div 100
           in if amount < ft then Inl QuoteError_AmountTooSmall
              else
                (let net_input = amount - ft;
                     todo = remaining_segments dir (of_nat state_sqrt_price) (segments liq valid);
                     (out, p_end) =
                       (case dir of
                          QuoteToBase \<Rightarrow> walk_up todo (of_nat net_input) (of_nat state_sqrt_price) 0
                        | BaseToQuote \<Rightarrow> walk_down todo (of_nat net_input) (of_nat state_sqrt_price) 0)
                 in Inr \<lparr> amount_out = out, fee_total = ft, protocol_fee = pf,
                          referral_fee = rf, ending_sqrt_price = p_end \<rparr>)))"

text \<open>
  The words of the saturation claim, written out for comparison with the walk: the total
  depth of the remaining segments (what it costs to cross all of them), the output of
  crossing all of them, and the outermost boundary price in the direction of the trade.
\<close>

fun depth_up :: "segment list \<Rightarrow> rat \<Rightarrow> rat" where
  "depth_up [] p = 0"
| "depth_up ((p_lo, p_hi, L) # rest) p = of_nat L * (of_nat p_hi - p) + depth_up rest (of_nat p_hi)"

fun max_out_up :: "segment list \<Rightarrow> rat \<Rightarrow> rat" where
  "max_out_up [] p = 0"
| "max_out_up ((p_lo, p_hi, L) # rest) p =
     of_nat L * (1 / p - 1 / of_nat p_hi) + max_out_up rest (of_nat p_hi)"

fun depth_down :: "segment list \<Rightarrow> rat \<Rightarrow> rat" where
  "depth_down [] p = 0"
| "depth_down ((p_lo, p_hi, L) # rest) p =
     of_nat L * (1 / of_nat p_lo - 1 / p) + depth_down rest (of_nat p_lo)"

fun max_out_down :: "segment list \<Rightarrow> rat \<Rightarrow> rat" where
  "max_out_down [] p = 0"
| "max_out_down ((p_lo, p_hi, L) # rest) p =
     of_nat L * (p - of_nat p_lo) + max_out_down rest (of_nat p_lo)"


definition total_depth :: "direction \<Rightarrow> rat \<Rightarrow> segment list \<Rightarrow> rat" where
  "total_depth dir p todo =
     (case dir of QuoteToBase \<Rightarrow> depth_up todo p | BaseToQuote \<Rightarrow> depth_down todo p)"

definition max_output :: "direction \<Rightarrow> rat \<Rightarrow> segment list \<Rightarrow> rat" where
  "max_output dir p todo =
     (case dir of QuoteToBase \<Rightarrow> max_out_up todo p | BaseToQuote \<Rightarrow> max_out_down todo p)"

definition outer_boundary :: "direction \<Rightarrow> point list \<Rightarrow> nat" where
  "outer_boundary dir valid =
     (case dir of QuoteToBase \<Rightarrow> fst (last valid) | BaseToQuote \<Rightarrow> fst (hd valid))"

text \<open>
  Invariants for the proofs. A walk up is chained when the price is at most the upper
  boundary of each segment it comes to; a walk down when it is at least the lower one.
  Segments are ascending when each is a proper range of positive prices and starts where
  the one before ends.
\<close>

fun chained_up :: "rat \<Rightarrow> segment list \<Rightarrow> bool" where
  "chained_up p [] = True"
| "chained_up p ((p_lo, p_hi, L) # rest) = (p \<le> of_nat p_hi \<and> chained_up (of_nat p_hi) rest)"

fun chained_down :: "rat \<Rightarrow> segment list \<Rightarrow> bool" where
  "chained_down p [] = True"
| "chained_down p ((p_lo, p_hi, L) # rest) =
     (0 < p_lo \<and> of_nat p_lo \<le> p \<and> chained_down (of_nat p_lo) rest)"

fun ascending :: "segment list \<Rightarrow> bool" where
  "ascending [] = True"
| "ascending [(p_lo, p_hi, L)] = (0 < p_lo \<and> p_lo < p_hi)"
| "ascending ((p_lo, p_hi, L) # (p_lo', p_hi', L') # rest) =
     (0 < p_lo \<and> p_lo < p_hi \<and> p_hi = p_lo' \<and> ascending ((p_lo', p_hi', L') # rest))"

section \<open>A pool and a client to run the functions on\<close>

definition example_pool_state :: pool_state where
  "example_pool_state =
     \<lparr> config = ''Cfg'', pool = ''Pool'', base_mint = ''BaseMint'', base_vault = ''BaseVault'',
       quote_vault = ''QuoteVault'', cur_sqrt_price = 100 \<rparr>"

definition example_pool_config :: pool_config where
  "example_pool_config =
     \<lparr> quote_mint = ''QuoteMint'', token_decimal = 9,
       curve = [ \<lparr> sqrt_price = 100, liquidity = 1000000 \<rparr>,
                 \<lparr> sqrt_price = 0, liquidity = 7 \<rparr>,
                 \<lparr> sqrt_price = 200, liquidity = 500000 \<rparr>,
                 \<lparr> sqrt_price = 0, liquidity = 0 \<rparr> ],
       pool_fees = \<lparr> base_fee = \<lparr> cliff_fee_numerator = 10000000 \<rparr>,
                     protocol_fee_percent = 20, referral_fee_percent = 20 \<rparr> \<rparr>"

text \<open>A client on which every collaborator succeeds; the payer holds no base token
  account yet and a base balance of 1000.\<close>

definition example_client :: env where
  "example_client =
     \<lparr> fetch_pool_state = (\<lambda>_. Inr example_pool_state),
       fetch_pool_config = (\<lambda>_. Inr example_pool_config),
       swap_quote_to_base = (\<lambda>_. Inr 42),
       swap_base_to_quote = (\<lambda>_. Inr 42),
       get_token_accounts_by_owner = (\<lambda>_ _. Inr []),
       get_token_balance = (\<lambda>_ _. Inr (Some 1000)),
       get_associated_token_address = (\<lambda>_ _. Inr ''BaseATA''),
       urandom = (\<lambda>n. Inr (replicate n 0)),
       urlsafe_b64encode = (\<lambda>_. ''AAAAAAAAAAAAAAAAAAAAAAAAAAAAAAAA''),
       create_with_seed = (\<lambda>_ _ _. Inr ''QuoteAcc''),
       get_min_balance_rent_for_exempt_for_account = Inr 2039280,
       get_latest_blockhash = Inr ''Blockhash'',
       try_compile = (\<lambda>p ixs bh. Inr (p, ixs, bh)),
       VersionedTransaction = (\<lambda>m ks. Inr (m, ks)),
       send_transaction = (\<lambda>_. Inr ''Sig''),
       confirm_txn = (\<lambda>_. Inr True),
       int_quote_in_times_pow10 = (\<lambda>q d. Inr \<lfloor>q * 10 ^ nat d\<rfloor>),
       int_balance_times_percentage = (\<lambda>b p. Inr \<lfloor>b * of_int p / 100\<rfloor>) \<rparr>"

definition example_payer :: keypair where
  "example_payer = Keypair ''Payer''"

text \<open>The same client with a pool-state fetch that raises.\<close>

definition failing_client :: "exc \<Rightarrow> env" where
  "failing_client e = example_client \<lparr> fetch_pool_state := (\<lambda>_. Inl e) \<rparr>"

text \<open>What the example client's buy of 0.1 and its sells hand to the compiler.\<close>

definition example_swap_accounts :: "pubkey \<Rightarrow> pubkey \<Rightarrow> account_meta list" where
  "example_swap_accounts input_account output_account =
     [ AccountMeta ''FhVo3mqL8PW5pH5U2CN4XE33DokiyZnUwuGpH2hmHLuM'' False False,
       AccountMeta ''Cfg'' False False,
       AccountMeta ''Pool'' False True,
       AccountMeta input_account False True,
       AccountMeta output_account False True,
       AccountMeta ''BaseVault'' False True,
       AccountMeta ''QuoteVault'' False True,
       AccountMeta ''BaseMint'' False False,
       AccountMeta ''QuoteMint'' False False,
       AccountMeta ''Payer'' True True,
       AccountMeta ''TokenkegQfeZyiNwAJbNbGKPFXCWuBvf9Ss623VQ5DA'' False False,
       AccountMeta ''TokenkegQfeZyiNwAJbNbGKPFXCWuBvf9Ss623VQ5DA'' False False,
       AccountMeta ''dbcij3LWUppWqq96dh6gJWwBifmcGfLSB5D4DuSMaqN'' False False,
       AccountMeta ''8Ks12pbrD6PXxfty1hVQiE9sc289zgU1zHkvXhrSdriF'' False False,
       AccountMeta ''dbcij3LWUppWqq96dh6gJWwBifmcGfLSB5D4DuSMaqN'' False False ]"

definition example_buy_data :: "byte list" where
  "example_buy_data =
     [248, 198, 158, 145, 225, 117, 135, 200, 0, 225, 245, 5, 0, 0, 0, 0,
      0, 0, 0, 0, 0, 0, 0, 0]"

definition example_sell_data :: "byte list" where
  "example_sell_data =
     [248, 198, 158, 145, 225, 117, 135, 200, 244, 1, 0, 0, 0, 0, 0, 0,
      0, 0, 0, 0, 0, 0, 0, 0]"

definition example_buy_instructions :: "instruction list" where
  "example_buy_instructions =
     [ Set_compute_unit_limit 100000,
       Set_compute_unit_price 1000000,
       Create_account_with_seed ''Payer'' ''QuoteAcc'' ''Payer''
         ''AAAAAAAAAAAAAAAAAAAAAAAAAAAAAAAA'' 102039280 165
         ''TokenkegQfeZyiNwAJbNbGKPFXCWuBvf9Ss623VQ5DA'',
       Initialize_account ''TokenkegQfeZyiNwAJbNbGKPFXCWuBvf9Ss623VQ5DA'' ''QuoteAcc''
         ''QuoteMint'' ''Payer'',
       Create_associated_token_account ''Payer'' ''Payer'' ''BaseMint'',
       Instruction ''dbcij3LWUppWqq96dh6gJWwBifmcGfLSB5D4DuSMaqN'' example_buy_data
         (example_swap_accounts ''QuoteAcc'' ''BaseATA''),
       Close_account ''TokenkegQfeZyiNwAJbNbGKPFXCWuBvf9Ss623VQ5DA'' ''QuoteAcc''
         ''Payer'' ''Payer'' ]"

definition example_sell_instructions :: "byte list \<Rightarrow> instruction list" where
  "example_sell_instructions data =
     [ Set_compute_unit_limit 100000,
       Set_compute_unit_price 1000000,
       Create_account_with_seed ''Payer'' ''QuoteAcc'' ''Payer''
         ''AAAAAAAAAAAAAAAAAAAAAAAAAAAAAAAA'' 2039280 165
         ''TokenkegQfeZyiNwAJbNbGKPFXCWuBvf9Ss623VQ5DA'',
       Initialize_account ''TokenkegQfeZyiNwAJbNbGKPFXCWuBvf9Ss623VQ5DA'' ''QuoteAcc''
         ''QuoteMint'' ''Payer'',
       Instruction ''dbcij3LWUppWqq96dh6gJWwBifmcGfLSB5D4DuSMaqN'' data
         (example_swap_accounts ''BaseATA'' ''QuoteAcc''),
       Close_account ''TokenkegQfeZyiNwAJbNbGKPFXCWuBvf9Ss623VQ5DA'' ''QuoteAcc''
         ''Payer'' ''Payer'' ]"

definition example_estimate_args :: "int \<Rightarrow> estimate_args" where
  "example_estimate_args amount =
     \<lparr> amount_in = amount, cliff_fee_num = 10000000, protocol_fee_pct = 20,
       referral_fee_pct = 20, cur_sqrt = 100,
       curve_arg = [(100, 1000000), (200, 500000)] \<rparr>"

text \<open>An example curve: the range between two points carries the liquidity of the
  upper point; the denominator is 1000000000 and the fee one percent.\<close>

definition upper_liquidity :: "point \<Rightarrow> point \<Rightarrow> nat" where
  "upper_liquidity a b = snd b"

definition example_points :: "point list" where
  "example_points = [(100, 1000000), (0, 7), (200, 500000), (300, 1000), (0, 0)]"

definition example_valid :: "point list" where
  "example_valid = [(100, 1000000), (200, 500000), (300, 1000)]"

definition example_quote :: "direction \<Rightarrow> nat \<Rightarrow> nat \<Rightarrow> nat \<Rightarrow> quote_error + swap_quote" where
  "example_quote dir protocol_percent referral_percent state_sqrt_price =
     quote 1000000000 upper_liquidity dir 1000000000 10000000 protocol_percent
       referral_percent state_sqrt_price example_points"

definition example_overcharged :: swap_quote where
  "example_overcharged =
     \<lparr> amount_out = 50050000, fee_total = 10000000, protocol_fee = 10000000,
       referral_fee = 10000000, ending_sqrt_price = 100 \<rparr>"

section \<open>Facts about runs\<close>

lemmas run_defs = then_do_def say_def call_def pure_step_def return_value_def

lemmas example_defs = example_client_def example_pool_state_def example_pool_config_def
  example_payer_def failing_client_def

lemmas out_defs = example_swap_accounts_def example_buy_data_def example_sell_data_def
  example_buy_instructions_def example_sell_instructions_def example_estimate_args_def

lemmas const_defs = METEORA_DBC_PROGRAM_def TOKEN_PROGRAM_ID_def POOL_AUTHORITY_def
  REFERRAL_TOKEN_ACC_def EVENT_AUTH_def ACCOUNT_SPACE_def

text \<open>The handler adds at most its own print; the calls in the trace are the body's.\<close>

lemma try_compile_in_handler:
  "Call_try_compile p ixs bh \<in> set (fst (try_except_Exception body)) \<longleftrightarrow>
   Call_try_compile p ixs bh \<in> set (fst (body []))"
  by (auto simp: try_except_Exception_def split: prod.splits sum.splits)

lemma quote_to_base_in_handler:
  "Call_swap_quote_to_base ea \<in> set (fst (try_except_Exception body)) \<longleftrightarrow>
   Call_swap_quote_to_base ea \<in> set (fst (body []))"
  by (auto simp: try_except_Exception_def split: prod.splits sum.splits)

lemma base_to_quote_in_handler:
  "Call_swap_base_to_quote ea \<in> set (fst (try_except_Exception body)) \<longleftrightarrow>
   Call_swap_base_to_quote ea \<in> set (fst (body []))"
  by (auto simp: try_except_Exception_def split: prod.splits sum.splits)

text \<open>What sell has computed by the time it compiles the transaction.\<close>

lemma sell_compiles:
  assumes "Call_try_compile p ixs bh
             \<in> set (fst (sell_body client kp pool_str pct sl ub up []))"
  shows "\<exists>ps pc bal amount ata rb q rent d.
      1 \<le> pct \<and> pct \<le> 100 \<and>
      fetch_pool_state client pool_str = Inr ps \<and>
      fetch_pool_config client (config ps) = Inr pc \<and>
      get_token_balance client (pubkey_of kp) (base_mint ps) = Inr bal \<and> \<not> falsy bal \<and>
      int_balance_times_percentage client (the bal) pct = Inr amount \<and>
      get_associated_token_address client (pubkey_of kp) (base_mint ps) = Inr ata \<and>
      urandom client 24 = Inr rb \<and>
      create_with_seed client (pubkey_of kp) (urlsafe_b64encode client rb) TOKEN_PROGRAM_ID
        = Inr q \<and>
      get_min_balance_rent_for_exempt_for_account client = Inr rent \<and>
      swap_data amount 0 = Inr d \<and>
      p = pubkey_of kp \<and>
      ixs = sell_instructions ub up
        (Create_account_with_seed (pubkey_of kp) q (pubkey_of kp)
           (urlsafe_b64encode client rb) rent ACCOUNT_SPACE TOKEN_PROGRAM_ID)
        (Initialize_account TOKEN_PROGRAM_ID q (quote_mint pc) (pubkey_of kp))
        (Instruction METEORA_DBC_PROGRAM d (sell_accounts ps pc kp q ata))
        (Close_account TOKEN_PROGRAM_ID q (pubkey_of kp) (pubkey_of kp))
        @ (if pct = 100
           then [Close_account TOKEN_PROGRAM_ID ata (pubkey_of kp) (pubkey_of kp)]
           else [])"
  using assms unfolding sell_body_def run_defs Let_def
  by (auto split: sum.splits if_splits prod.splits list.splits)

text \<open>What buy and sell hand to the quotation functions.\<close>

lemma buy_estimate:
  assumes "Call_swap_quote_to_base ea
             \<in> set (fst (buy_body client kp pool_str qin sl ub up []))"
  shows "\<exists>ps pc amount.
      fetch_pool_state client pool_str = Inr ps \<and>
      fetch_pool_config client (config ps) = Inr pc \<and>
      int_quote_in_times_pow10 client qin (token_decimal pc) = Inr amount \<and>
      ea = \<lparr> amount_in = amount,
             cliff_fee_num = cliff_fee_numerator (base_fee (pool_fees pc)),
             protocol_fee_pct = protocol_fee_percent (pool_fees pc),
             referral_fee_pct = referral_fee_percent (pool_fees pc),
             cur_sqrt = cur_sqrt_price ps,
             curve_arg = curve_of (curve pc) \<rparr>"
  using assms unfolding buy_body_def run_defs Let_def
  by (auto split: sum.splits if_splits prod.splits list.splits)

lemma sell_estimate:
  assumes "Call_swap_base_to_quote ea
             \<in> set (fst (sell_body client kp pool_str pct sl ub up []))"
  shows "\<exists>ps pc bal amount.
      fetch_pool_state client pool_str = Inr ps \<and>
      fetch_pool_config client (config ps) = Inr pc \<and>
      get_token_balance client (pubkey_of kp) (base_mint ps) = Inr bal \<and> \<not> falsy bal \<and>
      int_balance_times_percentage client (the bal) pct = Inr amount \<and>
      ea = \<lparr> amount_in = amount,
             cliff_fee_num = cliff_fee_numerator (base_fee (pool_fees pc)),
             protocol_fee_pct = protocol_fee_percent (pool_fees pc),
             referral_fee_pct = referral_fee_percent (pool_fees pc),
             cur_sqrt = cur_sqrt_price ps,
             curve_arg = curve_of (curve pc) \<rparr>"
  using assms unfolding sell_body_def run_defs Let_def
  by (auto split: sum.splits if_splits prod.splits list.splits)

text \<open>The two example runs in full.\<close>

lemma example_buy_run:
  "buy example_client example_payer ''Pool'' (1 / 10) 5 100000 1000000 =
     ([ Print (Starting_buy ''Pool''), Print Fetching_pool_state,
        Call_fetch_pool_state ''Pool'', Print Fetching_pool_config,
        Call_fetch_pool_config ''Cfg'',
        Call_swap_quote_to_base (example_estimate_args 100000000),
        Print (Quote_to_base_estimate 42),
        Print Checking_for_existing_base_token_account,
        Call_get_token_accounts_by_owner ''Payer'' ''BaseMint'',
        Call_get_associated_token_address ''Payer'' ''BaseMint'',
        Print (Will_create_base_token_ATA ''BaseATA''),
        Print Generating_seed, Call_urandom 24,
        Call_create_with_seed ''Payer'' ''AAAAAAAAAAAAAAAAAAAAAAAAAAAAAAAA''
          ''TokenkegQfeZyiNwAJbNbGKPFXCWuBvf9Ss623VQ5DA'',
        Call_get_min_balance_rent,
        Print Creating_and_initializing_quote_token_account,
        Print Creating_swap_instruction,
        Print Preparing_to_close_quote_token_account,
        Print Compiling_transaction_message, Call_get_latest_blockhash,
        Call_try_compile ''Payer'' example_buy_instructions ''Blockhash'',
        Print Sending_transaction,
        Call_VersionedTransaction (''Payer'', example_buy_instructions, ''Blockhash'')
          [Keypair ''Payer''],
        Call_send_transaction
          ((''Payer'', example_buy_instructions, ''Blockhash''), [Keypair ''Payer'']),
        Print (Transaction_signature ''Sig''), Print Confirming_transaction,
        Call_confirm_txn ''Sig'', Print (Transaction_confirmed True) ],
      Returns True)"
  by (simp add: buy_def buy_body_def try_except_Exception_def run_defs example_defs out_defs
      const_defs swap_data_def pack_Q_def discriminator_def buy_accounts_def
      buy_instructions_def Let_def eval_nat_numeral)

lemma example_sell_run:
  "sell example_client example_payer ''Pool'' 50 5 100000 1000000 =
     ([ Print (Starting_sell ''Pool''), Print Fetching_pool_state,
        Call_fetch_pool_state ''Pool'', Print Fetching_pool_config,
        Call_fetch_pool_config ''Cfg'', Print Retrieving_base_token_balance,
        Call_get_token_balance ''Payer'' ''BaseMint'',
        Call_swap_base_to_quote (example_estimate_args 500),
        Print (Base_to_quote_estimate 42),
        Print Getting_associated_base_token_account_address,
        Call_get_associated_token_address ''Payer'' ''BaseMint'',
        Print Generating_seed, Call_urandom 24,
        Call_create_with_seed ''Payer'' ''AAAAAAAAAAAAAAAAAAAAAAAAAAAAAAAA''
          ''TokenkegQfeZyiNwAJbNbGKPFXCWuBvf9Ss623VQ5DA'',
        Call_get_min_balance_rent,
        Print Creating_and_initializing_quote_token_account,
        Print Creating_swap_instruction,
        Print Preparing_to_close_quote_token_account,
        Print Compiling_transaction_message, Call_get_latest_blockhash,
        Call_try_compile ''Payer'' (example_sell_instructions example_sell_data) ''Blockhash'',
        Print Sending_transaction,
        Call_VersionedTransaction (''Payer'', (example_sell_instructions example_sell_data), ''Blockhash'')
          [Keypair ''Payer''],
        Call_send_transaction
          ((''Payer'', (example_sell_instructions example_sell_data), ''Blockhash''), [Keypair ''Payer'']),
        Print (Transaction_signature ''Sig''), Print Confirming_transaction,
        Call_confirm_txn ''Sig'', Print (Transaction_confirmed True) ],
      Returns True)"
  by (simp add: sell_def sell_body_def try_except_Exception_def run_defs example_defs out_defs
      const_defs swap_data_def pack_Q_def discriminator_def sell_accounts_def
      sell_instructions_def falsy_def Let_def eval_nat_numeral)

text \<open>The swap instruction among the instructions compiled, and what went into it.\<close>

lemma buy_swap_instruction:
  assumes "Call_try_compile p ixs bh
             \<in> set (fst (buy_body client kp pool_str qin sl ub up []))"
    and "Instruction prog d accs \<in> set ixs"
  shows "\<exists>ps pc amount base_acc rb q.
      fetch_pool_state client pool_str = Inr ps \<and>
      fetch_pool_config client (config ps) = Inr pc \<and>
      int_quote_in_times_pow10 client qin (token_decimal pc) = Inr amount \<and>
      ((\<exists>rest. get_token_accounts_by_owner client (pubkey_of kp) (base_mint ps)
                 = Inr (base_acc # rest)) \<or>
       (get_token_accounts_by_owner client (pubkey_of kp) (base_mint ps) = Inr [] \<and>
        get_associated_token_address client (pubkey_of kp) (base_mint ps) = Inr base_acc)) \<and>
      urandom client 24 = Inr rb \<and>
      create_with_seed client (pubkey_of kp) (urlsafe_b64encode client rb) TOKEN_PROGRAM_ID
        = Inr q \<and>
      swap_data amount 0 = Inr d \<and>
      prog = METEORA_DBC_PROGRAM \<and>
      accs = buy_accounts ps pc kp q base_acc"
  using assms unfolding buy_body_def run_defs Let_def buy_instructions_def
  by (auto split: sum.splits if_splits prod.splits list.splits)

lemma sell_swap_instruction:
  assumes "Call_try_compile p ixs bh
             \<in> set (fst (sell_body client kp pool_str pct sl ub up []))"
    and "Instruction prog d accs \<in> set ixs"
  shows "\<exists>ps pc bal amount ata rb q.
      fetch_pool_state client pool_str = Inr ps \<and>
      fetch_pool_config client (config ps) = Inr pc \<and>
      get_token_balance client (pubkey_of kp) (base_mint ps) = Inr bal \<and> \<not> falsy bal \<and>
      int_balance_times_percentage client (the bal) pct = Inr amount \<and>
      get_associated_token_address client (pubkey_of kp) (base_mint ps) = Inr ata \<and>
      urandom client 24 = Inr rb \<and>
      create_with_seed client (pubkey_of kp) (urlsafe_b64encode client rb) TOKEN_PROGRAM_ID
        = Inr q \<and>
      swap_data amount 0 = Inr d \<and>
      prog = METEORA_DBC_PROGRAM \<and>
      accs = sell_accounts ps pc kp q ata"
  using assms unfolding sell_body_def run_defs Let_def sell_instructions_def
  by (auto split: sum.splits if_splits prod.splits list.splits)

section \<open>The list comprehension and the packed integers\<close>

lemma curve_of_map_filter:
  "curve_of pts = map (\<lambda>pt. (sqrt_price pt, liquidity pt)) (filter (\<lambda>pt. sqrt_price pt \<noteq> 0) pts)"
  by (induction pts) auto

lemma length_le_bytes: "length (le_bytes k n) = k"
  by (induction k arbitrary: n) auto

lemma le_value_le_bytes: "le_value (le_bytes k n) = n mod 256 ^ k"
proof (induction k arbitrary: n)
  case 0
  then show ?case by simp
next
  case (Suc k)
  have "uint (word_of_int (n mod 256) :: byte) = n mod 256"
    by (simp add: uint_word_of_int take_bit_eq_mod)
  then show ?case
    using Suc.IH [of "n div 256"] zmod_zmult2_eq [of "256 ^ k" n 256] by simp
qed

lemma swap_data_layout:
  assumes "swap_data amount minimum_amount_out = Inr d"
  shows "d = discriminator @ le_bytes 8 amount @ le_bytes 8 minimum_amount_out"
    and "length d = 24"
    and "take 8 d = discriminator"
    and "le_value (take 8 (drop 8 d)) = amount"
    and "le_value (drop 16 d) = minimum_amount_out"
    and "0 \<le> amount \<and> amount < 2 ^ 64"
proof -
  from assms have a: "0 \<le> amount" "amount < 2 ^ 64"
    and m: "0 \<le> minimum_amount_out" "minimum_amount_out < 2 ^ 64"
    and d: "d = discriminator @ le_bytes 8 amount @ le_bytes 8 minimum_amount_out"
    by (auto simp: swap_data_def pack_Q_def split: if_splits)
  have disc: "length discriminator = 8"
    by (simp add: discriminator_def)
  show "d = discriminator @ le_bytes 8 amount @ le_bytes 8 minimum_amount_out"
    by (rule d)
  show "length d = 24"
    by (simp add: d disc length_le_bytes)
  show "take 8 d = discriminator"
    by (simp add: d disc)
  have "le_value (take 8 (drop 8 d)) = le_value (le_bytes 8 amount)"
    by (simp add: d disc length_le_bytes)
  also have "\<dots> = amount"
    using a by (simp add: le_value_le_bytes)
  finally show "le_value (take 8 (drop 8 d)) = amount" .
  have "le_value (drop 16 d) = le_value (le_bytes 8 minimum_amount_out)"
    by (simp add: d disc length_le_bytes)
  also have "\<dots> = minimum_amount_out"
    using m by (simp add: le_value_le_bytes)
  finally show "le_value (drop 16 d) = minimum_amount_out" .
  show "0 \<le> amount \<and> amount < 2 ^ 64"
    using a by simp
qed

section \<open>The swap instruction that buy and sell build\<close>

text \<open>
  C1. Every swap instruction among the instructions that buy or sell compiles carries
  a payload of 24 bytes: the discriminator f8 c6 9e 91 e1 75 87 c8, the same in both
  directions, then the amount of the trade as eight little-endian bytes (the amount
  that was also handed to the quotation function), then the minimum amount out, which
  both functions set to 0, as eight little-endian bytes.
\<close>

theorem swap_payload_layout:
  assumes "(Call_swap_quote_to_base ea
              \<in> set (fst (buy client payer_keypair pool_str quote_in slippage unit_budget
                            unit_price)) \<and>
            Call_try_compile p ixs bh
              \<in> set (fst (buy client payer_keypair pool_str quote_in slippage unit_budget
                            unit_price)))
           \<or> (Call_swap_base_to_quote ea
              \<in> set (fst (sell client payer_keypair pool_str percentage slippage unit_budget
                            unit_price)) \<and>
            Call_try_compile p ixs bh
              \<in> set (fst (sell client payer_keypair pool_str percentage slippage unit_budget
                            unit_price)))"
    and "Instruction prog d accs \<in> set ixs"
  shows "d = [0xf8, 0xc6, 0x9e, 0x91, 0xe1, 0x75, 0x87, 0xc8]
             @ le_bytes 8 (amount_in ea) @ le_bytes 8 0 \<and>
         length d = 24 \<and>
         le_value (take 8 (drop 8 d)) = amount_in ea \<and>
         le_value (drop 16 d) = 0"
  using assms(1)
proof (elim disjE conjE)
  assume "Call_swap_quote_to_base ea
      \<in> set (fst (buy client payer_keypair pool_str quote_in slippage unit_budget unit_price))"
    and "Call_try_compile p ixs bh
      \<in> set (fst (buy client payer_keypair pool_str quote_in slippage unit_budget unit_price))"
  then have e: "Call_swap_quote_to_base ea
      \<in> set (fst (buy_body client payer_keypair pool_str quote_in slippage unit_budget
                    unit_price []))"
    and c: "Call_try_compile p ixs bh
      \<in> set (fst (buy_body client payer_keypair pool_str quote_in slippage unit_budget
                    unit_price []))"
    by (simp_all add: buy_def quote_to_base_in_handler try_compile_in_handler)
  from buy_estimate [OF e] obtain ps pc amount where
      "fetch_pool_state client pool_str = Inr ps"
      "fetch_pool_config client (config ps) = Inr pc"
      "int_quote_in_times_pow10 client quote_in (token_decimal pc) = Inr amount"
      "amount_in ea = amount"
    by force
  moreover from buy_swap_instruction [OF c assms(2)] obtain ps' pc' amount' where
      "fetch_pool_state client pool_str = Inr ps'"
      "fetch_pool_config client (config ps') = Inr pc'"
      "int_quote_in_times_pow10 client quote_in (token_decimal pc') = Inr amount'"
      "swap_data amount' 0 = Inr d"
    by blast
  ultimately have "swap_data (amount_in ea) 0 = Inr d"
    by simp
  from swap_data_layout [OF this] show ?thesis
    unfolding discriminator_def by blast
next
  assume "Call_swap_base_to_quote ea
      \<in> set (fst (sell client payer_keypair pool_str percentage slippage unit_budget
                    unit_price))"
    and "Call_try_compile p ixs bh
      \<in> set (fst (sell client payer_keypair pool_str percentage slippage unit_budget
                    unit_price))"
  then have e: "Call_swap_base_to_quote ea
      \<in> set (fst (sell_body client payer_keypair pool_str percentage slippage unit_budget
                    unit_price []))"
    and c: "Call_try_compile p ixs bh
      \<in> set (fst (sell_body client payer_keypair pool_str percentage slippage unit_budget
                    unit_price []))"
    by (simp_all add: sell_def base_to_quote_in_handler try_compile_in_handler)
  from sell_estimate [OF e] obtain ps pc bal amount where
      "fetch_pool_state client pool_str = Inr ps"
      "fetch_pool_config client (config ps) = Inr pc"
      "get_token_balance client (pubkey_of payer_keypair) (base_mint ps) = Inr bal"
      "int_balance_times_percentage client (the bal) percentage = Inr amount"
      "amount_in ea = amount"
    by force
  moreover from sell_swap_instruction [OF c assms(2)] obtain ps' pc' bal' amount' where
      "fetch_pool_state client pool_str = Inr ps'"
      "fetch_pool_config client (config ps') = Inr pc'"
      "get_token_balance client (pubkey_of payer_keypair) (base_mint ps') = Inr bal'"
      "int_balance_times_percentage client (the bal') percentage = Inr amount'"
      "swap_data amount' 0 = Inr d"
    by blast
  ultimately have "swap_data (amount_in ea) 0 = Inr d"
    by simp
  from swap_data_layout [OF this] show ?thesis
    unfolding discriminator_def by blast
qed


theorem swap_payload_layout_witness:
  "Call_swap_quote_to_base (example_estimate_args 100000000)
     \<in> set (fst (buy example_client example_payer ''Pool'' (1 / 10) 5 100000 1000000)) \<and>
   Call_try_compile ''Payer'' example_buy_instructions ''Blockhash''
     \<in> set (fst (buy example_client example_payer ''Pool'' (1 / 10) 5 100000 1000000)) \<and>
   Instruction METEORA_DBC_PROGRAM example_buy_data
     (example_swap_accounts ''QuoteAcc'' ''BaseATA'') \<in> set example_buy_instructions \<and>
   example_buy_data =
     [0xf8, 0xc6, 0x9e, 0x91, 0xe1, 0x75, 0x87, 0xc8] @ le_bytes 8 100000000 @ le_bytes 8 0 \<and>
   length example_buy_data = 24 \<and>
   le_value (take 8 (drop 8 example_buy_data)) = 100000000 \<and>
   le_value (drop 16 example_buy_data) = 0 \<and>
   Call_swap_base_to_quote (example_estimate_args 500)
     \<in> set (fst (sell example_client example_payer ''Pool'' 50 5 100000 1000000)) \<and>
   Call_try_compile ''Payer'' (example_sell_instructions example_sell_data) ''Blockhash''
     \<in> set (fst (sell example_client example_payer ''Pool'' 50 5 100000 1000000)) \<and>
   Instruction METEORA_DBC_PROGRAM example_sell_data
     (example_swap_accounts ''BaseATA'' ''QuoteAcc'') \<in> set (example_sell_instructions example_sell_data) \<and>
   example_sell_data =
     [0xf8, 0xc6, 0x9e, 0x91, 0xe1, 0x75, 0x87, 0xc8] @ le_bytes 8 500 @ le_bytes 8 0 \<and>
   length example_sell_data = 24 \<and>
   le_value (take 8 (drop 8 example_sell_data)) = 500 \<and>
   le_value (drop 16 example_sell_data) = 0"
proof -
  have b: "Call_swap_quote_to_base (example_estimate_args 100000000)
     \<in> set (fst (buy example_client example_payer ''Pool'' (1 / 10) 5 100000 1000000))"
    "Call_try_compile ''Payer'' example_buy_instructions ''Blockhash''
     \<in> set (fst (buy example_client example_payer ''Pool'' (1 / 10) 5 100000 1000000))"
    by (simp_all add: example_buy_run)
  have bi: "Instruction METEORA_DBC_PROGRAM example_buy_data
     (example_swap_accounts ''QuoteAcc'' ''BaseATA'') \<in> set example_buy_instructions"
    by (simp add: example_buy_instructions_def METEORA_DBC_PROGRAM_def)
  have s: "Call_swap_base_to_quote (example_estimate_args 500)
     \<in> set (fst (sell example_client example_payer ''Pool'' 50 5 100000 1000000))"
    "Call_try_compile ''Payer'' (example_sell_instructions example_sell_data) ''Blockhash''
     \<in> set (fst (sell example_client example_payer ''Pool'' 50 5 100000 1000000))"
    by (simp_all add: example_sell_run)
  have si: "Instruction METEORA_DBC_PROGRAM example_sell_data
     (example_swap_accounts ''BaseATA'' ''QuoteAcc'') \<in> set (example_sell_instructions example_sell_data)"
    by (simp add: example_sell_instructions_def METEORA_DBC_PROGRAM_def)
  have amounts: "amount_in (example_estimate_args 100000000) = 100000000"
    "amount_in (example_estimate_args 500) = 500"
    by (simp_all add: example_estimate_args_def)
  from b bi s si
    swap_payload_layout [OF disjI1 [OF conjI [OF b]] bi]
    swap_payload_layout [OF disjI2 [OF conjI [OF s]] si]
  show ?thesis
    unfolding amounts by blast
qed

text \<open>
  C3, what the code does. The slippage argument is never read: two calls that differ
  only in slippage are the same run with the same payload. With slippage 1 and with
  slippage 50 the example buy compiles the same swap instruction, whose last eight
  bytes, the minimum amount out, are 0.
\<close>

theorem slippage_never_reaches_the_payload:
  "buy client payer_keypair pool_str quote_in slippage unit_budget unit_price =
   buy client payer_keypair pool_str quote_in slippage' unit_budget unit_price \<and>
   sell client payer_keypair pool_str percentage slippage unit_budget unit_price =
   sell client payer_keypair pool_str percentage slippage' unit_budget unit_price \<and>
   Call_try_compile ''Payer'' example_buy_instructions ''Blockhash''
     \<in> set (fst (buy example_client example_payer ''Pool'' (1 / 10) 1 100000 1000000)) \<and>
   Call_try_compile ''Payer'' example_buy_instructions ''Blockhash''
     \<in> set (fst (buy example_client example_payer ''Pool'' (1 / 10) 50 100000 1000000)) \<and>
   Instruction METEORA_DBC_PROGRAM example_buy_data
     (example_swap_accounts ''QuoteAcc'' ''BaseATA'') \<in> set example_buy_instructions \<and>
   drop 16 example_buy_data = [0, 0, 0, 0, 0, 0, 0, 0]"
proof -
  have same: "buy client payer_keypair pool_str quote_in s unit_budget unit_price =
      buy client payer_keypair pool_str quote_in s' unit_budget unit_price"
    for client payer_keypair pool_str quote_in s s' unit_budget unit_price
    by (simp add: buy_def buy_body_def)
  have "sell client payer_keypair pool_str percentage slippage unit_budget unit_price =
      sell client payer_keypair pool_str percentage slippage' unit_budget unit_price"
    by (simp add: sell_def sell_body_def)
  moreover have "Call_try_compile ''Payer'' example_buy_instructions ''Blockhash''
      \<in> set (fst (buy example_client example_payer ''Pool'' (1 / 10) s 100000 1000000))"
    for s
    by (simp add: buy_def buy_body_def try_except_Exception_def run_defs example_defs out_defs
        const_defs swap_data_def pack_Q_def discriminator_def buy_accounts_def
        buy_instructions_def Let_def eval_nat_numeral)
  moreover have "Instruction METEORA_DBC_PROGRAM example_buy_data
      (example_swap_accounts ''QuoteAcc'' ''BaseATA'') \<in> set example_buy_instructions"
    by (simp add: example_buy_instructions_def METEORA_DBC_PROGRAM_def)
  moreover have "drop 16 example_buy_data = [0, 0, 0, 0, 0, 0, 0, 0]"
    by (simp add: example_buy_data_def)
  ultimately show ?thesis
    using same by blast
qed

text \<open>
  C2. The account list of every swap instruction that buy or sell compiles is the fixed
  list of 15 entries: pool authority, pool configuration, pool, input token account,
  output token account, base vault, quote vault, base mint, quote mint, fee payer (the
  only signer), token program for the input, token program for the output, referral
  token account, event authority, program id. buy fills the input and output places with
  the seeded quote account and the base token account (the first one the payer already
  has, otherwise the associated one); sell fills them with the associated base token
  account and the seeded quote account. Exchanging input and output changes the entries
  at indices 3 and 4 (the fourth and fifth) and no other.
\<close>

theorem swap_account_order:
  "(Call_try_compile p ixs bh
      \<in> set (fst (buy client payer_keypair pool_str quote_in slippage unit_budget unit_price))
    \<and> Instruction prog d accounts \<in> set ixs \<longrightarrow>
    (\<exists>pool_state pool_config random_bytes quote_token_account base_token_account.
       fetch_pool_state client pool_str = Inr pool_state \<and>
       fetch_pool_config client (config pool_state) = Inr pool_config \<and>
       urandom client 24 = Inr random_bytes \<and>
       create_with_seed client (pubkey_of payer_keypair)
         (urlsafe_b64encode client random_bytes) TOKEN_PROGRAM_ID = Inr quote_token_account \<and>
       ((\<exists>rest. get_token_accounts_by_owner client (pubkey_of payer_keypair)
                  (base_mint pool_state) = Inr (base_token_account # rest)) \<or>
        (get_token_accounts_by_owner client (pubkey_of payer_keypair)
           (base_mint pool_state) = Inr [] \<and>
         get_associated_token_address client (pubkey_of payer_keypair)
           (base_mint pool_state) = Inr base_token_account)) \<and>
       accounts = swap_account_schema pool_state pool_config payer_keypair
                    quote_token_account base_token_account)) \<and>
   (Call_try_compile p' ixs' bh'
      \<in> set (fst (sell client payer_keypair pool_str percentage slippage unit_budget
                    unit_price))
    \<and> Instruction prog' d' accounts' \<in> set ixs' \<longrightarrow>
    (\<exists>pool_state pool_config random_bytes quote_token_account base_token_account.
       fetch_pool_state client pool_str = Inr pool_state \<and>
       fetch_pool_config client (config pool_state) = Inr pool_config \<and>
       urandom client 24 = Inr random_bytes \<and>
       create_with_seed client (pubkey_of payer_keypair)
         (urlsafe_b64encode client random_bytes) TOKEN_PROGRAM_ID = Inr quote_token_account \<and>
       get_associated_token_address client (pubkey_of payer_keypair)
         (base_mint pool_state) = Inr base_token_account \<and>
       accounts' = swap_account_schema pool_state pool_config payer_keypair
                     base_token_account quote_token_account)) \<and>
   length (swap_account_schema ps pc kp input_account output_account) = 15 \<and>
   map meta_pubkey (swap_account_schema ps pc kp input_account output_account) =
     [ POOL_AUTHORITY, config ps, pool ps, input_account, output_account, base_vault ps,
       quote_vault ps, base_mint ps, quote_mint pc, pubkey_of kp, TOKEN_PROGRAM_ID,
       TOKEN_PROGRAM_ID, REFERRAL_TOKEN_ACC, EVENT_AUTH, METEORA_DBC_PROGRAM ] \<and>
   map is_signer (swap_account_schema ps pc kp input_account output_account) =
     [ False, False, False, False, False, False, False, False, False, True, False, False,
       False, False, False ] \<and>
   map is_writable (swap_account_schema ps pc kp input_account output_account) =
     [ False, False, True, True, True, True, True, False, False, True, False, False,
       False, False, False ] \<and>
   swap_account_schema ps pc kp output_account input_account =
     (swap_account_schema ps pc kp input_account output_account)
       [3 := AccountMeta output_account False True,
        4 := AccountMeta input_account False True]"
proof (intro conjI impI)
  assume "Call_try_compile p ixs bh
      \<in> set (fst (buy client payer_keypair pool_str quote_in slippage unit_budget unit_price))
    \<and> Instruction prog d accounts \<in> set ixs"
  then have b: "Call_try_compile p ixs bh
      \<in> set (fst (buy_body client payer_keypair pool_str quote_in slippage unit_budget
                    unit_price []))"
    and i: "Instruction prog d accounts \<in> set ixs"
    by (simp_all add: buy_def try_compile_in_handler)
  from buy_swap_instruction [OF b i]
  show "\<exists>pool_state pool_config random_bytes quote_token_account base_token_account.
       fetch_pool_state client pool_str = Inr pool_state \<and>
       fetch_pool_config client (config pool_state) = Inr pool_config \<and>
       urandom client 24 = Inr random_bytes \<and>
       create_with_seed client (pubkey_of payer_keypair)
         (urlsafe_b64encode client random_bytes) TOKEN_PROGRAM_ID = Inr quote_token_account \<and>
       ((\<exists>rest. get_token_accounts_by_owner client (pubkey_of payer_keypair)
                  (base_mint pool_state) = Inr (base_token_account # rest)) \<or>
        (get_token_accounts_by_owner client (pubkey_of payer_keypair)
           (base_mint pool_state) = Inr [] \<and>
         get_associated_token_address client (pubkey_of payer_keypair)
           (base_mint pool_state) = Inr base_token_account)) \<and>
       accounts = swap_account_schema pool_state pool_config payer_keypair
                    quote_token_account base_token_account"
    unfolding swap_account_schema_def buy_accounts_def by blast
next
  assume "Call_try_compile p' ixs' bh'
      \<in> set (fst (sell client payer_keypair pool_str percentage slippage unit_budget
                    unit_price))
    \<and> Instruction prog' d' accounts' \<in> set ixs'"
  then have s: "Call_try_compile p' ixs' bh'
      \<in> set (fst (sell_body client payer_keypair pool_str percentage slippage unit_budget
                    unit_price []))"
    and i: "Instruction prog' d' accounts' \<in> set ixs'"
    by (simp_all add: sell_def try_compile_in_handler)
  from sell_swap_instruction [OF s i]
  show "\<exists>pool_state pool_config random_bytes quote_token_account base_token_account.
       fetch_pool_state client pool_str = Inr pool_state \<and>
       fetch_pool_config client (config pool_state) = Inr pool_config \<and>
       urandom client 24 = Inr random_bytes \<and>
       create_with_seed client (pubkey_of payer_keypair)
         (urlsafe_b64encode client random_bytes) TOKEN_PROGRAM_ID = Inr quote_token_account \<and>
       get_associated_token_address client (pubkey_of payer_keypair)
         (base_mint pool_state) = Inr base_token_account \<and>
       accounts' = swap_account_schema pool_state pool_config payer_keypair
                     base_token_account quote_token_account"
    unfolding swap_account_schema_def sell_accounts_def by blast
qed (simp_all add: swap_account_schema_def)


theorem swap_account_order_witness:
  "Call_try_compile ''Payer'' example_buy_instructions ''Blockhash''
     \<in> set (fst (buy example_client example_payer ''Pool'' (1 / 10) 5 100000 1000000)) \<and>
   Instruction METEORA_DBC_PROGRAM example_buy_data
     (example_swap_accounts ''QuoteAcc'' ''BaseATA'') \<in> set example_buy_instructions \<and>
   example_swap_accounts ''QuoteAcc'' ''BaseATA'' =
     swap_account_schema example_pool_state example_pool_config example_payer
       ''QuoteAcc'' ''BaseATA'' \<and>
   Call_try_compile ''Payer'' (example_sell_instructions example_sell_data) ''Blockhash''
     \<in> set (fst (sell example_client example_payer ''Pool'' 50 5 100000 1000000)) \<and>
   Instruction METEORA_DBC_PROGRAM example_sell_data
     (example_swap_accounts ''BaseATA'' ''QuoteAcc'')
     \<in> set (example_sell_instructions example_sell_data) \<and>
   example_swap_accounts ''BaseATA'' ''QuoteAcc'' =
     swap_account_schema example_pool_state example_pool_config example_payer
       ''BaseATA'' ''QuoteAcc'' \<and>
   length (example_swap_accounts ''QuoteAcc'' ''BaseATA'') = 15 \<and>
   example_swap_accounts ''BaseATA'' ''QuoteAcc'' =
     (example_swap_accounts ''QuoteAcc'' ''BaseATA'')
       [3 := AccountMeta ''BaseATA'' False True, 4 := AccountMeta ''QuoteAcc'' False True]"
proof -
  have b: "Call_try_compile ''Payer'' example_buy_instructions ''Blockhash''
       \<in> set (fst (buy example_client example_payer ''Pool'' (1 / 10) 5 100000 1000000))
     \<and> Instruction METEORA_DBC_PROGRAM example_buy_data
       (example_swap_accounts ''QuoteAcc'' ''BaseATA'') \<in> set example_buy_instructions"
    by (simp add: example_buy_run example_buy_instructions_def METEORA_DBC_PROGRAM_def)
  have s: "Call_try_compile ''Payer'' (example_sell_instructions example_sell_data)
         ''Blockhash''
       \<in> set (fst (sell example_client example_payer ''Pool'' 50 5 100000 1000000))
     \<and> Instruction METEORA_DBC_PROGRAM example_sell_data
       (example_swap_accounts ''BaseATA'' ''QuoteAcc'')
       \<in> set (example_sell_instructions example_sell_data)"
    by (simp add: example_sell_run example_sell_instructions_def METEORA_DBC_PROGRAM_def)
  note order = swap_account_order
      [where client = example_client and payer_keypair = example_payer
         and pool_str = "''Pool''" and quote_in = "1 / 10" and percentage = 50
         and slippage = 5 and unit_budget = 100000 and unit_price = 1000000
         and p = "''Payer''" and ixs = example_buy_instructions and bh = "''Blockhash''"
         and prog = METEORA_DBC_PROGRAM and d = example_buy_data
         and accounts = "example_swap_accounts ''QuoteAcc'' ''BaseATA''"
         and p' = "''Payer''" and ixs' = "example_sell_instructions example_sell_data"
         and bh' = "''Blockhash''" and prog' = METEORA_DBC_PROGRAM
         and d' = example_sell_data
         and accounts' = "example_swap_accounts ''BaseATA'' ''QuoteAcc''"
         and ps = example_pool_state and pc = example_pool_config and kp = example_payer
         and input_account = "''QuoteAcc''" and output_account = "''BaseATA''"]
  from order [THEN conjunct1, rule_format, OF b]
  have buy_list: "example_swap_accounts ''QuoteAcc'' ''BaseATA'' =
     swap_account_schema example_pool_state example_pool_config example_payer
       ''QuoteAcc'' ''BaseATA''"
    by (auto simp: example_defs)
  from order [THEN conjunct2, THEN conjunct1, rule_format, OF s]
  have sell_list: "example_swap_accounts ''BaseATA'' ''QuoteAcc'' =
     swap_account_schema example_pool_state example_pool_config example_payer
       ''BaseATA'' ''QuoteAcc''"
    by (auto simp: example_defs)
  note rest = order [THEN conjunct2, THEN conjunct2, THEN conjunct1]
    order [THEN conjunct2, THEN conjunct2, THEN conjunct2, THEN conjunct2, THEN conjunct2,
      THEN conjunct2]
  from b s buy_list sell_list rest show ?thesis
    by simp
qed

section \<open>The curve handed to the quotation functions\<close>

text \<open>
  C6. The curve that buy hands to \<open>swap_quote_to_base\<close> and sell to
  \<open>swap_base_to_quote\<close> is the configuration's list of curve points with the points of
  zero \<open>sqrt_price\<close> left out, the others kept in their order, each as its pair
  \<open>(sqrt_price, liquidity)\<close>.
\<close>

theorem curve_handed_to_quotation:
  assumes "Call_swap_quote_to_base ea
             \<in> set (fst (buy client payer_keypair pool_str quote_in slippage unit_budget
                           unit_price))
           \<or> Call_swap_base_to_quote ea
             \<in> set (fst (sell client payer_keypair pool_str percentage slippage unit_budget
                           unit_price))"
  shows "\<exists>pool_state pool_config.
      fetch_pool_state client pool_str = Inr pool_state \<and>
      fetch_pool_config client (config pool_state) = Inr pool_config \<and>
      curve_arg ea =
        map (\<lambda>pt. (sqrt_price pt, liquidity pt))
          (filter (\<lambda>pt. sqrt_price pt \<noteq> 0) (curve pool_config))"
  using assms
proof
  assume "Call_swap_quote_to_base ea
             \<in> set (fst (buy client payer_keypair pool_str quote_in slippage unit_budget
                           unit_price))"
  then have "Call_swap_quote_to_base ea
      \<in> set (fst (buy_body client payer_keypair pool_str quote_in slippage unit_budget
                    unit_price []))"
    by (simp add: buy_def quote_to_base_in_handler)
  from buy_estimate [OF this] show ?thesis
    by (auto simp: curve_of_map_filter)
next
  assume "Call_swap_base_to_quote ea
             \<in> set (fst (sell client payer_keypair pool_str percentage slippage unit_budget
                           unit_price))"
  then have "Call_swap_base_to_quote ea
      \<in> set (fst (sell_body client payer_keypair pool_str percentage slippage unit_budget
                    unit_price []))"
    by (simp add: sell_def base_to_quote_in_handler)
  from sell_estimate [OF this] show ?thesis
    by (auto simp: curve_of_map_filter)
qed

theorem curve_handed_to_quotation_witness:
  "(Call_swap_quote_to_base (example_estimate_args 100000000)
      \<in> set (fst (buy example_client example_payer ''Pool'' (1 / 10) 5 100000 1000000))
    \<or> Call_swap_base_to_quote (example_estimate_args 100000000)
      \<in> set (fst (sell example_client example_payer ''Pool'' 50 5 100000 1000000))) \<and>
   (Call_swap_quote_to_base (example_estimate_args 500)
      \<in> set (fst (buy example_client example_payer ''Pool'' (1 / 10) 5 100000 1000000))
    \<or> Call_swap_base_to_quote (example_estimate_args 500)
      \<in> set (fst (sell example_client example_payer ''Pool'' 50 5 100000 1000000))) \<and>
   fetch_pool_config example_client ''Cfg'' = Inr example_pool_config \<and>
   curve example_pool_config =
     [ \<lparr> sqrt_price = 100, liquidity = 1000000 \<rparr>, \<lparr> sqrt_price = 0, liquidity = 7 \<rparr>,
       \<lparr> sqrt_price = 200, liquidity = 500000 \<rparr>, \<lparr> sqrt_price = 0, liquidity = 0 \<rparr> ] \<and>
   curve_arg (example_estimate_args 100000000) = [(100, 1000000), (200, 500000)] \<and>
   curve_arg (example_estimate_args 500) = [(100, 1000000), (200, 500000)]"
  using curve_handed_to_quotation
          [of "example_estimate_args 100000000" example_client example_payer "''Pool''"
              "1 / 10" 5 100000 1000000 50]
        curve_handed_to_quotation
          [of "example_estimate_args 500" example_client example_payer "''Pool''"
              "1 / 10" 5 100000 1000000 50]
  by (simp add: example_buy_run example_sell_run)
     (simp add: example_client_def example_pool_config_def example_estimate_args_def)

section \<open>sell: the percentage\<close>

text \<open>
  C9. For every percentage outside 1 to 100, sell prints its first line and the range
  message and returns False: no collaborator is called, so no account is fetched, no
  estimate computed, no instruction built or sent. The range check is the first
  decision after the first log line.
\<close>

theorem sell_rejects_percentage_out_of_range:
  assumes "percentage < 1 \<or> 100 < percentage"
  shows "sell client payer_keypair pool_str percentage slippage unit_budget unit_price =
           ([Print (Starting_sell pool_str), Print Percentage_must_be_between_1_and_100],
            Returns False)"
  using assms by (auto simp: sell_def sell_body_def try_except_Exception_def run_defs)

theorem sell_rejects_percentage_out_of_range_witness:
  "((0::int) < 1 \<or> 100 < (0::int)) \<and>
   sell example_client example_payer ''Pool'' 0 5 100000 1000000 =
     ([Print (Starting_sell ''Pool''), Print Percentage_must_be_between_1_and_100],
      Returns False) \<and>
   ((101::int) < 1 \<or> 100 < (101::int)) \<and>
   sell example_client example_payer ''Pool'' 101 5 100000 1000000 =
     ([Print (Starting_sell ''Pool''), Print Percentage_must_be_between_1_and_100],
      Returns False)"
  using sell_rejects_percentage_out_of_range
          [of 0 example_client example_payer "''Pool''" 5 100000 1000000]
        sell_rejects_percentage_out_of_range
          [of 101 example_client example_payer "''Pool''" 5 100000 1000000]
  by simp

text \<open>
  C10. The instructions that sell compiles are the six (compute limit, compute price,
  create the quote account, initialize it, swap, close the quote account), followed by
  the closing of the seller's associated base token account exactly when the percentage
  is 100: seven instructions then, six for every other percentage.
\<close>

theorem sell_closes_base_account_iff_full:
  assumes "Call_try_compile p ixs bh
             \<in> set (fst (sell client payer_keypair pool_str percentage slippage
                           unit_budget unit_price))"
  shows "\<exists>pool_state pool_config base_token_account quote_token_account seed quote_rent data.
      fetch_pool_state client pool_str = Inr pool_state \<and>
      fetch_pool_config client (config pool_state) = Inr pool_config \<and>
      get_associated_token_address client (pubkey_of payer_keypair) (base_mint pool_state)
        = Inr base_token_account \<and>
      ixs =
        [ Set_compute_unit_limit unit_budget,
          Set_compute_unit_price unit_price,
          Create_account_with_seed (pubkey_of payer_keypair) quote_token_account
            (pubkey_of payer_keypair) seed quote_rent ACCOUNT_SPACE TOKEN_PROGRAM_ID,
          Initialize_account TOKEN_PROGRAM_ID quote_token_account (quote_mint pool_config)
            (pubkey_of payer_keypair),
          Instruction METEORA_DBC_PROGRAM data
            (sell_accounts pool_state pool_config payer_keypair quote_token_account
               base_token_account),
          Close_account TOKEN_PROGRAM_ID quote_token_account (pubkey_of payer_keypair)
            (pubkey_of payer_keypair) ]
        @ (if percentage = 100
           then [Close_account TOKEN_PROGRAM_ID base_token_account
                   (pubkey_of payer_keypair) (pubkey_of payer_keypair)]
           else []) \<and>
      length ixs = (if percentage = 100 then 7 else 6)"
proof -
  from assms have "Call_try_compile p ixs bh
      \<in> set (fst (sell_body client payer_keypair pool_str percentage slippage
                    unit_budget unit_price []))"
    by (simp add: sell_def try_compile_in_handler)
  from sell_compiles [OF this] show ?thesis
    by (auto simp: sell_instructions_def)
qed

theorem sell_closes_base_account_iff_full_witness:
  "(Call_try_compile ''Payer'' (example_sell_instructions example_sell_data) ''Blockhash''
      \<in> set (fst (sell example_client example_payer ''Pool'' 50 5 100000 1000000)) \<and>
    (\<exists>pool_state pool_config base_token_account quote_token_account seed quote_rent data.
      fetch_pool_state example_client ''Pool'' = Inr pool_state \<and>
      fetch_pool_config example_client (config pool_state) = Inr pool_config \<and>
      get_associated_token_address example_client (pubkey_of example_payer)
        (base_mint pool_state) = Inr base_token_account \<and>
      (example_sell_instructions example_sell_data) =
        [ Set_compute_unit_limit 100000,
          Set_compute_unit_price 1000000,
          Create_account_with_seed (pubkey_of example_payer) quote_token_account
            (pubkey_of example_payer) seed quote_rent ACCOUNT_SPACE TOKEN_PROGRAM_ID,
          Initialize_account TOKEN_PROGRAM_ID quote_token_account (quote_mint pool_config)
            (pubkey_of example_payer),
          Instruction METEORA_DBC_PROGRAM data
            (sell_accounts pool_state pool_config example_payer quote_token_account
               base_token_account),
          Close_account TOKEN_PROGRAM_ID quote_token_account (pubkey_of example_payer)
            (pubkey_of example_payer) ]
        @ (if (50::int) = 100
           then [Close_account TOKEN_PROGRAM_ID base_token_account
                   (pubkey_of example_payer) (pubkey_of example_payer)]
           else []) \<and>
      length (example_sell_instructions example_sell_data) = (if (50::int) = 100 then 7 else 6))) \<and>
   (Call_try_compile ''Payer''
        (example_sell_instructions (discriminator @ le_bytes 8 1000 @ le_bytes 8 0)
          @ [Close_account TOKEN_PROGRAM_ID ''BaseATA'' ''Payer'' ''Payer''])
        ''Blockhash''
      \<in> set (fst (sell example_client example_payer ''Pool'' 100 5 100000 1000000)) \<and>
    (\<exists>pool_state pool_config base_token_account quote_token_account seed quote_rent data.
      fetch_pool_state example_client ''Pool'' = Inr pool_state \<and>
      fetch_pool_config example_client (config pool_state) = Inr pool_config \<and>
      get_associated_token_address example_client (pubkey_of example_payer)
        (base_mint pool_state) = Inr base_token_account \<and>
      (example_sell_instructions (discriminator @ le_bytes 8 1000 @ le_bytes 8 0)
          @ [Close_account TOKEN_PROGRAM_ID ''BaseATA'' ''Payer'' ''Payer'']) =
        [ Set_compute_unit_limit 100000,
          Set_compute_unit_price 1000000,
          Create_account_with_seed (pubkey_of example_payer) quote_token_account
            (pubkey_of example_payer) seed quote_rent ACCOUNT_SPACE TOKEN_PROGRAM_ID,
          Initialize_account TOKEN_PROGRAM_ID quote_token_account (quote_mint pool_config)
            (pubkey_of example_payer),
          Instruction METEORA_DBC_PROGRAM data
            (sell_accounts pool_state pool_config example_payer quote_token_account
               base_token_account),
          Close_account TOKEN_PROGRAM_ID quote_token_account (pubkey_of example_payer)
            (pubkey_of example_payer) ]
        @ (if (100::int) = 100
           then [Close_account TOKEN_PROGRAM_ID base_token_account
                   (pubkey_of example_payer) (pubkey_of example_payer)]
           else []) \<and>
      length (example_sell_instructions (discriminator @ le_bytes 8 1000 @ le_bytes 8 0)
          @ [Close_account TOKEN_PROGRAM_ID ''BaseATA'' ''Payer'' ''Payer'']) = (if (100::int) = 100 then 7 else 6)))"
proof -
  have half: "Call_try_compile ''Payer'' (example_sell_instructions example_sell_data) ''Blockhash''
      \<in> set (fst (sell example_client example_payer ''Pool'' 50 5 100000 1000000))"
    by (simp add: example_sell_run)
  have full: "Call_try_compile ''Payer''
        (example_sell_instructions (discriminator @ le_bytes 8 1000 @ le_bytes 8 0)
          @ [Close_account TOKEN_PROGRAM_ID ''BaseATA'' ''Payer'' ''Payer''])
        ''Blockhash''
      \<in> set (fst (sell example_client example_payer ''Pool'' 100 5 100000 1000000))"
    by (simp add: sell_def sell_body_def try_except_Exception_def run_defs example_defs
        out_defs const_defs swap_data_def pack_Q_def discriminator_def sell_accounts_def
        sell_instructions_def falsy_def Let_def eval_nat_numeral)
  from half sell_closes_base_account_iff_full [OF half]
    full sell_closes_base_account_iff_full [OF full]
  show ?thesis
    by blast
qed

section \<open>The exception handler\<close>

text \<open>
  Printing is taken not to fail. What can fail in a body is a collaborator call or
  \<open>struct.pack\<close>; the body then ends with that exception.
\<close>

text \<open>
  C7, as the code has it. When the body of buy or sell fails with an exception derived
  from \<open>Exception\<close>, the function prints one more line, "Error occurred during
  transaction:" followed by \<open>str(e)\<close>, and returns False. The message is all that
  leaves the function; the class of the exception does not.
\<close>

theorem failure_is_logged_by_its_message:
  assumes "derives_Exception e"
  shows "(buy_body client payer_keypair pool_str quote_in slippage unit_budget unit_price []
            = (t, Inl e) \<longrightarrow>
          buy client payer_keypair pool_str quote_in slippage unit_budget unit_price
            = (t @ [Print (Error_occurred_during_transaction (exc_str e))], Returns False)) \<and>
         (sell_body client payer_keypair pool_str percentage slippage unit_budget unit_price []
            = (t', Inl e) \<longrightarrow>
          sell client payer_keypair pool_str percentage slippage unit_budget unit_price
            = (t' @ [Print (Error_occurred_during_transaction (exc_str e))], Returns False))"
  using assms by (simp add: buy_def sell_def try_except_Exception_def)

theorem failure_is_logged_by_its_message_witness:
  "derives_Exception (Exc True ''ValueError'' ''bad account data'') \<and>
   buy_body (failing_client (Exc True ''ValueError'' ''bad account data'')) example_payer
       ''Pool'' (1 / 10) 5 100000 1000000 []
     = ([Print (Starting_buy ''Pool''), Print Fetching_pool_state,
         Call_fetch_pool_state ''Pool''],
        Inl (Exc True ''ValueError'' ''bad account data'')) \<and>
   buy (failing_client (Exc True ''ValueError'' ''bad account data'')) example_payer
       ''Pool'' (1 / 10) 5 100000 1000000
     = ([Print (Starting_buy ''Pool''), Print Fetching_pool_state,
         Call_fetch_pool_state ''Pool'']
        @ [Print (Error_occurred_during_transaction
                    (exc_str (Exc True ''ValueError'' ''bad account data'')))],
        Returns False) \<and>
   sell_body (failing_client (Exc True ''ValueError'' ''bad account data'')) example_payer
       ''Pool'' 50 5 100000 1000000 []
     = ([Print (Starting_sell ''Pool''), Print Fetching_pool_state,
         Call_fetch_pool_state ''Pool''],
        Inl (Exc True ''ValueError'' ''bad account data'')) \<and>
   sell (failing_client (Exc True ''ValueError'' ''bad account data'')) example_payer
       ''Pool'' 50 5 100000 1000000
     = ([Print (Starting_sell ''Pool''), Print Fetching_pool_state,
         Call_fetch_pool_state ''Pool'']
        @ [Print (Error_occurred_during_transaction
                    (exc_str (Exc True ''ValueError'' ''bad account data'')))],
        Returns False)"
proof -
  have d: "derives_Exception (Exc True ''ValueError'' ''bad account data'')"
    by simp
  have b: "buy_body (failing_client (Exc True ''ValueError'' ''bad account data''))
       example_payer ''Pool'' (1 / 10) 5 100000 1000000 []
     = ([Print (Starting_buy ''Pool''), Print Fetching_pool_state,
         Call_fetch_pool_state ''Pool''],
        Inl (Exc True ''ValueError'' ''bad account data''))"
    by (simp add: buy_body_def run_defs example_defs)
  have s: "sell_body (failing_client (Exc True ''ValueError'' ''bad account data''))
       example_payer ''Pool'' 50 5 100000 1000000 []
     = ([Print (Starting_sell ''Pool''), Print Fetching_pool_state,
         Call_fetch_pool_state ''Pool''],
        Inl (Exc True ''ValueError'' ''bad account data''))"
    by (simp add: sell_body_def run_defs example_defs)
  from failure_is_logged_by_its_message [OF d, THEN conjunct1, rule_format, OF b]
    failure_is_logged_by_its_message [OF d, THEN conjunct2, rule_format, OF s] d b s
  show ?thesis
    by blast
qed

text \<open>
  The claim C7 as stated, that the boundary preserves which specific typed error
  occurred, fails: two failures of different classes with the same message, raised by
  the same call, give the same log and the same result.
\<close>

theorem class_of_the_error_is_lost_counterexample:
  "Exc True ''ValueError'' ''bad account data''
     \<noteq> Exc True ''RuntimeError'' ''bad account data'' \<and>
   buy (failing_client (Exc True ''ValueError'' ''bad account data'')) example_payer ''Pool''
     (1 / 10) 5 100000 1000000 =
   buy (failing_client (Exc True ''RuntimeError'' ''bad account data'')) example_payer ''Pool''
     (1 / 10) 5 100000 1000000 \<and>
   buy (failing_client (Exc True ''ValueError'' ''bad account data'')) example_payer ''Pool''
     (1 / 10) 5 100000 1000000 =
     ([ Print (Starting_buy ''Pool''), Print Fetching_pool_state,
        Call_fetch_pool_state ''Pool'',
        Print (Error_occurred_during_transaction ''bad account data'') ],
      Returns False) \<and>
   sell (failing_client (Exc True ''ValueError'' ''bad account data'')) example_payer ''Pool''
     50 5 100000 1000000 =
   sell (failing_client (Exc True ''RuntimeError'' ''bad account data'')) example_payer ''Pool''
     50 5 100000 1000000 \<and>
   sell (failing_client (Exc True ''ValueError'' ''bad account data'')) example_payer ''Pool''
     50 5 100000 1000000 =
     ([ Print (Starting_sell ''Pool''), Print Fetching_pool_state,
        Call_fetch_pool_state ''Pool'',
        Print (Error_occurred_during_transaction ''bad account data'') ],
      Returns False)"
  by (simp add: buy_def buy_body_def sell_def sell_body_def try_except_Exception_def run_defs
      example_defs)

text \<open>
  C8, as the code has it. An exception derived from \<open>Exception\<close> that is raised in the
  body never leaves buy or sell: the function returns False. An exception that does
  leave is one raised in the body whose class does not derive from \<open>Exception\<close>
  (KeyboardInterrupt, SystemExit), which \<open>except Exception\<close> does not catch.
\<close>

theorem exceptions_derived_from_Exception_are_caught:
  "(snd (buy_body client payer_keypair pool_str quote_in slippage unit_budget unit_price [])
      = Inl e \<and> derives_Exception e \<longrightarrow>
    snd (buy client payer_keypair pool_str quote_in slippage unit_budget unit_price)
      = Returns False) \<and>
   (snd (buy client payer_keypair pool_str quote_in slippage unit_budget unit_price)
      = Raises e' \<longrightarrow>
    \<not> derives_Exception e' \<and>
    snd (buy_body client payer_keypair pool_str quote_in slippage unit_budget unit_price [])
      = Inl e') \<and>
   (snd (sell_body client payer_keypair pool_str percentage slippage unit_budget unit_price [])
      = Inl e \<and> derives_Exception e \<longrightarrow>
    snd (sell client payer_keypair pool_str percentage slippage unit_budget unit_price)
      = Returns False) \<and>
   (snd (sell client payer_keypair pool_str percentage slippage unit_budget unit_price)
      = Raises e' \<longrightarrow>
    \<not> derives_Exception e' \<and>
    snd (sell_body client payer_keypair pool_str percentage slippage unit_budget unit_price [])
      = Inl e')"
  by (auto simp: buy_def sell_def try_except_Exception_def split: prod.splits sum.splits
      if_splits)

theorem exceptions_derived_from_Exception_are_caught_witness:
  "snd (buy_body (failing_client (Exc True ''ValueError'' ''bad account data'')) example_payer
          ''Pool'' (1 / 10) 5 100000 1000000 [])
     = Inl (Exc True ''ValueError'' ''bad account data'') \<and>
   derives_Exception (Exc True ''ValueError'' ''bad account data'') \<and>
   snd (buy (failing_client (Exc True ''ValueError'' ''bad account data'')) example_payer
          ''Pool'' (1 / 10) 5 100000 1000000)
     = Returns False \<and>
   snd (buy (failing_client (Exc False ''KeyboardInterrupt'' [])) example_payer
          ''Pool'' (1 / 10) 5 100000 1000000)
     = Raises (Exc False ''KeyboardInterrupt'' []) \<and>
   \<not> derives_Exception (Exc False ''KeyboardInterrupt'' []) \<and>
   snd (sell_body (failing_client (Exc True ''ValueError'' ''bad account data''))
          example_payer ''Pool'' 50 5 100000 1000000 [])
     = Inl (Exc True ''ValueError'' ''bad account data'') \<and>
   snd (sell (failing_client (Exc True ''ValueError'' ''bad account data'')) example_payer
          ''Pool'' 50 5 100000 1000000)
     = Returns False \<and>
   snd (sell (failing_client (Exc False ''KeyboardInterrupt'' [])) example_payer
          ''Pool'' 50 5 100000 1000000)
     = Raises (Exc False ''KeyboardInterrupt'' [])"
proof -
  have caught:
    "snd (buy_body (failing_client (Exc True ''ValueError'' ''bad account data''))
            example_payer ''Pool'' (1 / 10) 5 100000 1000000 [])
       = Inl (Exc True ''ValueError'' ''bad account data'')"
    "snd (sell_body (failing_client (Exc True ''ValueError'' ''bad account data''))
            example_payer ''Pool'' 50 5 100000 1000000 [])
       = Inl (Exc True ''ValueError'' ''bad account data'')"
    by (simp_all add: buy_body_def sell_body_def run_defs example_defs)
  have passed:
    "snd (buy (failing_client (Exc False ''KeyboardInterrupt'' [])) example_payer
            ''Pool'' (1 / 10) 5 100000 1000000)
       = Raises (Exc False ''KeyboardInterrupt'' [])"
    "snd (sell (failing_client (Exc False ''KeyboardInterrupt'' [])) example_payer
            ''Pool'' 50 5 100000 1000000)
       = Raises (Exc False ''KeyboardInterrupt'' [])"
    by (simp_all add: buy_def buy_body_def sell_def sell_body_def try_except_Exception_def
        run_defs example_defs)
  from caught passed
    exceptions_derived_from_Exception_are_caught
      [where client = "failing_client (Exc True ''ValueError'' ''bad account data'')"
         and e = "Exc True ''ValueError'' ''bad account data''"
         and payer_keypair = example_payer and pool_str = "''Pool''" and quote_in = "1 / 10"
         and percentage = 50 and slippage = 5 and unit_budget = 100000
         and unit_price = 1000000 and e' = "Exc False ''KeyboardInterrupt'' []"]
    exceptions_derived_from_Exception_are_caught
      [where client = "failing_client (Exc False ''KeyboardInterrupt'' [])"
         and e = "Exc True ''ValueError'' ''bad account data''"
         and payer_keypair = example_payer and pool_str = "''Pool''" and quote_in = "1 / 10"
         and percentage = 50 and slippage = 5 and unit_budget = 100000
         and unit_price = 1000000 and e' = "Exc False ''KeyboardInterrupt'' []"]
  show ?thesis
    by simp
qed

text \<open>
  The claim C8 as stated, that no exception ever reaches the caller, fails for a
  KeyboardInterrupt raised while the pool state is fetched.
\<close>

theorem exception_outside_Exception_propagates_counterexample:
  "buy (failing_client (Exc False ''KeyboardInterrupt'' [])) example_payer ''Pool''
     (1 / 10) 5 100000 1000000 =
     ([Print (Starting_buy ''Pool''), Print Fetching_pool_state,
       Call_fetch_pool_state ''Pool''],
      Raises (Exc False ''KeyboardInterrupt'' [])) \<and>
   sell (failing_client (Exc False ''KeyboardInterrupt'' [])) example_payer ''Pool''
     50 5 100000 1000000 =
     ([Print (Starting_sell ''Pool''), Print Fetching_pool_state,
       Call_fetch_pool_state ''Pool''],
      Raises (Exc False ''KeyboardInterrupt'' []))"
  by (simp add: buy_def buy_body_def sell_def sell_body_def try_except_Exception_def run_defs
      example_defs)

section \<open>The quotation engine: fees and saturation\<close>

lemma div_100_sum:
  fixes a b c :: nat
  assumes "a + b \<le> 100 * c"
  shows "a div 100 + b div 100 \<le> c"
proof -
  have "a div 100 * 100 \<le> a" "b div 100 * 100 \<le> b"
    by simp_all
  with assms have "(a div 100 + b div 100) * 100 \<le> c * 100"
    by (simp add: distrib_right)
  then show ?thesis
    by simp
qed

lemma share_sum:
  fixes ft p r :: nat
  assumes "p + r \<le> 100"
  shows "ft * p div 100 + ft * r div 100 \<le> ft"
proof -
  have "ft * p + ft * r = ft * (p + r)"
    by (simp add: distrib_left)
  also have "\<dots> \<le> ft * 100"
    using assms by (rule mult_le_mono2)
  finally have "ft * p + ft * r \<le> 100 * ft"
    by simp
  then show ?thesis
    by (rule div_100_sum)
qed


lemma depth_up_nonneg: "chained_up p segs \<Longrightarrow> 0 \<le> depth_up segs p"
  by (induction segs arbitrary: p) (auto simp: mult_nonneg_nonneg)

lemma walk_up_saturates:
  assumes "chained_up p segs" and "depth_up segs p \<le> remaining"
  shows "walk_up segs remaining p out =
           (out + max_out_up segs p, if segs = [] then p else of_nat (fst (snd (last segs))))"
  using assms
proof (induction segs arbitrary: p remaining out)
  case Nil
  then show ?case by simp
next
  case (Cons s segs)
  obtain p_lo p_hi L where s: "s = (p_lo, p_hi, L)"
    by (cases s)
  from Cons.prems have ch: "chained_up (of_nat p_hi) segs"
    and le: "of_nat L * (of_nat p_hi - p) + depth_up segs (of_nat p_hi) \<le> remaining"
    by (simp_all add: s)
  from depth_up_nonneg [OF ch] le
  have here: "\<not> remaining < of_nat L * (of_nat p_hi - p)"
    and rest: "depth_up segs (of_nat p_hi) \<le> remaining - of_nat L * (of_nat p_hi - p)"
    by simp_all
  from Cons.IH [OF ch rest] here show ?case
    by (simp add: s)
qed

lemma inverse_mono_rat:
  fixes a b :: rat
  assumes "0 < a" and "a \<le> b"
  shows "0 \<le> 1 / a - 1 / b"
  using assms by (simp add: frac_le)

lemma depth_down_nonneg: "chained_down p segs \<Longrightarrow> 0 \<le> depth_down segs p"
proof (induction segs arbitrary: p)
  case Nil
  then show ?case by simp
next
  case (Cons s segs)
  obtain p_lo p_hi L where s: "s = (p_lo, p_hi, L)"
    by (cases s)
  from Cons.prems have "0 < (of_nat p_lo :: rat)" "of_nat p_lo \<le> p"
    and ch: "chained_down (of_nat p_lo) segs"
    by (simp_all add: s)
  then have "0 \<le> of_nat L * (1 / of_nat p_lo - 1 / p)"
    by (intro mult_nonneg_nonneg inverse_mono_rat) simp_all
  with Cons.IH [OF ch] show ?case
    by (simp add: s)
qed

lemma walk_down_saturates:
  assumes "chained_down p segs" and "depth_down segs p \<le> remaining"
  shows "walk_down segs remaining p out =
           (out + max_out_down segs p, if segs = [] then p else of_nat (fst (last segs)))"
  using assms
proof (induction segs arbitrary: p remaining out)
  case Nil
  then show ?case by simp
next
  case (Cons s segs)
  obtain p_lo p_hi L where s: "s = (p_lo, p_hi, L)"
    by (cases s)
  from Cons.prems have ch: "chained_down (of_nat p_lo) segs"
    and le: "of_nat L * (1 / of_nat p_lo - 1 / p) + depth_down segs (of_nat p_lo) \<le> remaining"
    by (simp_all add: s)
  from depth_down_nonneg [OF ch] le
  have here: "\<not> remaining < of_nat L * (1 / of_nat p_lo - 1 / p)"
    and rest: "depth_down segs (of_nat p_lo)
                 \<le> remaining - of_nat L * (1 / of_nat p_lo - 1 / p)"
    by simp_all
  from Cons.IH [OF ch rest] here show ?case
    by (simp add: s)
qed


lemma locate_less: "segs \<noteq> [] \<Longrightarrow> locate p segs < length segs"
  by (induction p segs rule: locate.induct) auto

lemma ascending_tl: "ascending (s # segs) \<Longrightarrow> ascending segs"
  by (cases s; cases segs) auto

lemma ascending_head: "ascending ((p_lo, p_hi, L) # segs) \<Longrightarrow> 0 < p_lo \<and> p_lo < p_hi"
  by (cases segs) auto

lemma ascending_chained_up:
  "ascending ((p_lo, p_hi, L) # segs) \<Longrightarrow> p \<le> of_nat p_hi \<Longrightarrow> chained_up p ((p_lo, p_hi, L) # segs)"
proof (induction segs arbitrary: p p_lo p_hi L)
  case Nil
  then show ?case by simp
next
  case (Cons s segs)
  obtain lo' hi' L' where s: "s = (lo', hi', L')"
    by (cases s)
  from Cons.prems have asc: "ascending ((lo', hi', L') # segs)" and "p_hi = lo'"
    by (simp_all add: s)
  moreover from ascending_head [OF asc] have "lo' < hi'"
    by simp
  ultimately have "ascending ((lo', hi', L') # segs)" "p_hi = lo'" "lo' < hi'"
    by simp_all
  with Cons.IH [of lo' hi' L' "of_nat p_hi"] Cons.prems(2) show ?case
    by (simp add: s)
qed

lemma chained_up_located:
  assumes "ascending segs" and "segs \<noteq> []" and "p \<le> of_nat (fst (snd (last segs)))"
  shows "chained_up p (drop (locate p segs) segs)"
  using assms
proof (induction p segs rule: locate.induct)
  case (3 p p_lo p_hi L s rest)
  show ?case
  proof (cases "p \<le> of_nat p_hi")
    case True
    with "3.prems"(1) show ?thesis
      by (simp add: ascending_chained_up del: chained_up.simps ascending.simps)
  next
    case False
    with "3.IH" "3.prems" ascending_tl [OF "3.prems"(1)] show ?thesis
      by simp
  qed
next
  case (1 p)
  then show ?case by simp
next
  case (2 p v)
  obtain p_lo p_hi L where "v = (p_lo, p_hi, L)"
    by (cases v)
  with "2.prems" show ?case
    by simp
qed

lemma last_drop_located:
  "segs \<noteq> [] \<Longrightarrow> last (drop (locate p segs) segs) = last segs"
  using locate_less [of segs p] by simp

lemma drop_located_nonempty: "segs \<noteq> [] \<Longrightarrow> drop (locate p segs) segs \<noteq> []"
  using locate_less [of segs p] by simp


lemma chained_down_snoc:
  "chained_down p (xs @ [(p_lo, p_hi, L)]) \<longleftrightarrow>
     chained_down p xs \<and> 0 < p_lo \<and>
     of_nat p_lo \<le> (if xs = [] then p else of_nat (fst (last xs)))"
  by (induction xs arbitrary: p) auto

lemma chained_down_located:
  assumes "ascending segs" and "segs \<noteq> []" and "of_nat (fst (hd segs)) \<le> p"
  shows "chained_down p (rev (take (Suc (locate p segs)) segs))"
  using assms
proof (induction p segs rule: locate.induct)
  case (3 p p_lo p_hi L s rest)
  from ascending_head [OF "3.prems"(1)] have lo: "0 < p_lo" "p_lo < p_hi"
    by simp_all
  show ?case
  proof (cases "p \<le> of_nat p_hi")
    case True
    with lo "3.prems"(3) show ?thesis
      by simp
  next
    case False
    obtain lo' hi' L' where s: "s = (lo', hi', L')"
      by (cases s)
    from "3.prems"(1) have link: "p_hi = lo'" and asc: "ascending (s # rest)"
      by (simp_all add: s)
    from False link have "of_nat (fst (hd (s # rest))) \<le> p"
      by (simp add: s)
    define xs where "xs = rev (take (Suc (locate p (s # rest))) (s # rest))"
    from "3.IH" [OF False asc _ \<open>of_nat (fst (hd (s # rest))) \<le> p\<close>]
    have below: "chained_down p xs"
      by (simp add: xs_def)
    have ne: "xs \<noteq> []"
      by (simp add: xs_def)
    have lst: "fst (last xs) = lo'"
      by (simp add: xs_def s last_rev)
    have "rev (take (Suc (locate p ((p_lo, p_hi, L) # s # rest))) ((p_lo, p_hi, L) # s # rest))
            = xs @ [(p_lo, p_hi, L)]"
      using False by (simp add: xs_def)
    moreover have "chained_down p (xs @ [(p_lo, p_hi, L)])"
      unfolding chained_down_snoc using below ne lst lo link by simp
    ultimately show ?thesis
      by simp
  qed
next
  case (1 p)
  then show ?case by simp
next
  case (2 p v)
  obtain p_lo p_hi L where v: "v = (p_lo, p_hi, L)"
    by (cases v)
  from "2.prems" show ?case
    by (simp add: v)
qed

lemma last_rev_take_located:
  "segs \<noteq> [] \<Longrightarrow> last (rev (take (Suc (locate p segs)) segs)) = hd segs"
  by (cases segs) (simp_all add: last_rev)

lemma segments_ascending:
  assumes "sorted_wrt (<) (map fst valid)" and "\<forall>pt \<in> set valid. 0 < fst pt"
  shows "ascending (segments liq valid)"
  using assms
proof (induction liq valid rule: segments.induct)
  case (1 liq a b rest)
  then have "ascending (segments liq (b # rest))"
    by simp
  with "1.prems" show ?case
    by (cases rest) auto
qed simp_all

lemma segments_nonempty: "2 \<le> length valid \<Longrightarrow> segments liq valid \<noteq> []"
  by (cases valid; cases "tl valid") auto

lemma segments_last:
  "2 \<le> length valid \<Longrightarrow> fst (snd (last (segments liq valid))) = fst (last valid)"
proof (induction liq valid rule: segments.induct)
  case (1 liq a b rest)
  then show ?case
    by (cases rest) auto
qed simp_all

lemma segments_hd: "2 \<le> length valid \<Longrightarrow> fst (hd (segments liq valid)) = fst (hd valid)"
  by (cases valid; cases "tl valid") auto

lemma curve_new_valid:
  assumes "curve_new points = Inr valid"
  shows "2 \<le> length valid" and "sorted_wrt (<) (map fst valid)"
    and "\<forall>pt \<in> set valid. 0 < fst pt"
    and "valid = filter (\<lambda>pt. fst pt \<noteq> 0) points"
  using assms by (auto simp: curve_new_def Let_def split: if_splits)

lemma example_quote_up:
  "example_quote QuoteToBase 20 20 100 =
     Inr \<lparr> amount_out = 7505 / 3, fee_total = 10000000, protocol_fee = 2000000,
           referral_fee = 2000000, ending_sqrt_price = 300 \<rparr>"
  by (simp add: example_quote_def example_points_def upper_liquidity_def quote_def
      curve_new_def remaining_segments_def Let_def)

lemma example_quote_down:
  "example_quote BaseToQuote 100 100 250 = Inr example_overcharged"
  by (simp add: example_overcharged_def example_quote_def example_points_def upper_liquidity_def quote_def
      curve_new_def remaining_segments_def Let_def)

text \<open>
  C4, as the model has it. The fees of a quote are
  \<open>fee_total = floor(amount_in * cliff_fee_numerator / FEE_DENOMINATOR)\<close>,
  \<open>protocol_fee = floor(fee_total * protocol_fee_percent / 100)\<close> and
  \<open>referral_fee = floor(fee_total * referral_fee_percent / 100)\<close>, and
  \<open>protocol_fee + referral_fee \<le> fee_total\<close> whenever the two percentages sum to at
  most 100.
\<close>

theorem quote_fees:
  assumes "quote FEE_DENOMINATOR liq dir amount cliff_numerator protocol_percent
             referral_percent state_sqrt_price points = Inr q"
  shows "fee_total q = amount * cliff_numerator div FEE_DENOMINATOR \<and>
         protocol_fee q = fee_total q * protocol_percent div 100 \<and>
         referral_fee q = fee_total q * referral_percent div 100 \<and>
         (protocol_percent + referral_percent \<le> 100 \<longrightarrow>
            protocol_fee q + referral_fee q \<le> fee_total q)"
proof -
  from assms have "fee_total q = amount * cliff_numerator div FEE_DENOMINATOR"
    and "protocol_fee q = fee_total q * protocol_percent div 100"
    and "referral_fee q = fee_total q * referral_percent div 100"
    by (auto simp: quote_def Let_def split: sum.splits if_splits prod.splits)
  then show ?thesis
    using share_sum [of protocol_percent referral_percent "fee_total q"] by simp
qed

theorem quote_fees_witness:
  "example_quote QuoteToBase 20 20 100 =
     Inr \<lparr> amount_out = 7505 / 3, fee_total = 10000000, protocol_fee = 2000000,
           referral_fee = 2000000, ending_sqrt_price = 300 \<rparr> \<and>
   (10000000 :: nat) = 1000000000 * 10000000 div 1000000000 \<and>
   (2000000 :: nat) = 10000000 * 20 div 100 \<and>
   (20 :: nat) + 20 \<le> 100 \<and>
   (2000000 :: nat) + 2000000 \<le> 10000000"
  using quote_fees [OF example_quote_up [unfolded example_quote_def]] example_quote_up
  by simp

text \<open>
  The claim C4 as stated, with each percentage anywhere in 0 to 100, fails at 100 and
  100: the two shares together are twice the fee.
\<close>

theorem fee_shares_exceed_total_counterexample:
  "(100 :: nat) \<le> 100 \<and>
   example_quote BaseToQuote 100 100 250 = Inr example_overcharged \<and>
   fee_total example_overcharged = 10000000 \<and>
   protocol_fee example_overcharged + referral_fee example_overcharged = 20000000 \<and>
   \<not> protocol_fee example_overcharged + referral_fee example_overcharged
       \<le> fee_total example_overcharged"
  using example_quote_down by (simp add: example_overcharged_def)

text \<open>
  C5. For a valid curve (two or more points of nonzero price, strictly increasing) and a
  state price within it, a quote whose net input exceeds the total depth of the
  remaining segments does not fail: its output is the output of crossing every
  remaining segment, and the price it ends at is the outermost boundary in the
  direction of the trade (the last point's price for quote to base, the first point's
  for base to quote).
\<close>

theorem quote_saturates:
  assumes valid: "curve_new points = Inr valid"
    and inside: "fst (hd valid) \<le> state_sqrt_price" "state_sqrt_price \<le> fst (last valid)"
    and todo: "todo = remaining_segments dir (of_nat state_sqrt_price) (segments liq valid)"
    and net: "net_input = amount - amount * cliff_numerator div FEE_DENOMINATOR"
    and deep: "total_depth dir (of_nat state_sqrt_price) todo < of_nat net_input"
  shows "\<exists>q. quote FEE_DENOMINATOR liq dir amount cliff_numerator protocol_percent
                referral_percent state_sqrt_price points = Inr q \<and>
             amount_out q = max_output dir (of_nat state_sqrt_price) todo \<and>
             ending_sqrt_price q = of_nat (outer_boundary dir valid)"
proof -
  let ?p = "of_nat state_sqrt_price :: rat"
  let ?segs = "segments liq valid"
  note v = curve_new_valid [OF valid]
  have asc: "ascending ?segs"
    using v(2,3) by (rule segments_ascending)
  have ne: "?segs \<noteq> []"
    using v(1) by (rule segments_nonempty)
  have hi: "fst (snd (last ?segs)) = fst (last valid)"
    using v(1) by (rule segments_last)
  have lo: "fst (hd ?segs) = fst (hd valid)"
    using v(1) by (rule segments_hd)
  have chain: "case dir of QuoteToBase \<Rightarrow> chained_up ?p todo
                 | BaseToQuote \<Rightarrow> chained_down ?p todo"
  proof (cases dir)
    case QuoteToBase
    from inside(2) have "?p \<le> of_nat (fst (snd (last ?segs)))"
      by (simp add: hi)
    from chained_up_located [OF asc ne this] show ?thesis
      by (simp add: QuoteToBase todo remaining_segments_def)
  next
    case BaseToQuote
    from inside(1) have "of_nat (fst (hd ?segs)) \<le> ?p"
      by (simp add: lo)
    from chained_down_located [OF asc ne this] show ?thesis
      by (simp add: BaseToQuote todo remaining_segments_def)
  qed
  have pos: "0 \<le> total_depth dir ?p todo"
    using chain depth_up_nonneg [of ?p todo] depth_down_nonneg [of ?p todo]
    by (cases dir) (simp_all add: total_depth_def)
  with deep have "0 < net_input"
    by (cases "net_input = 0") simp_all
  with net have fee: "\<not> amount < amount * cliff_numerator div FEE_DENOMINATOR"
    by simp
  have walk: "(case dir of
                 QuoteToBase \<Rightarrow> walk_up todo (of_nat net_input) ?p 0
               | BaseToQuote \<Rightarrow> walk_down todo (of_nat net_input) ?p 0)
              = (max_output dir ?p todo, of_nat (outer_boundary dir valid))"
  proof (cases dir)
    case QuoteToBase
    with chain deep have c: "chained_up ?p todo" and d: "depth_up todo ?p \<le> of_nat net_input"
      by (simp_all add: total_depth_def)
    have td: "todo = drop (locate ?p ?segs) ?segs"
      by (simp add: todo QuoteToBase remaining_segments_def)
    have "todo \<noteq> []"
      unfolding td using ne by (rule drop_located_nonempty)
    moreover have "last todo = last ?segs"
      unfolding td using ne by (rule last_drop_located)
    ultimately have "todo \<noteq> []" "last todo = last ?segs"
      by simp_all
    with walk_up_saturates [OF c d, of 0] show ?thesis
      by (simp add: QuoteToBase max_output_def outer_boundary_def hi)
  next
    case BaseToQuote
    with chain deep have c: "chained_down ?p todo"
      and d: "depth_down todo ?p \<le> of_nat net_input"
      by (simp_all add: total_depth_def)
    have td: "todo = rev (take (Suc (locate ?p ?segs)) ?segs)"
      by (simp add: todo BaseToQuote remaining_segments_def)
    have "last todo = hd ?segs"
      unfolding td using ne by (rule last_rev_take_located)
    moreover have "todo \<noteq> []"
      unfolding td using ne by (cases ?segs) simp_all
    ultimately have "todo \<noteq> []" "last todo = hd ?segs"
      by simp_all
    with walk_down_saturates [OF c d, of 0] show ?thesis
      by (simp add: BaseToQuote max_output_def outer_boundary_def lo)
  qed
  from walk have "(case dir of
        QuoteToBase \<Rightarrow>
          walk_up (remaining_segments dir ?p ?segs)
            (of_nat (amount - amount * cliff_numerator div FEE_DENOMINATOR)) ?p 0
      | BaseToQuote \<Rightarrow>
          walk_down (remaining_segments dir ?p ?segs)
            (of_nat (amount - amount * cliff_numerator div FEE_DENOMINATOR)) ?p 0)
      = (max_output dir ?p todo, of_nat (outer_boundary dir valid))"
    by (simp only: todo net)
  with valid fee show ?thesis
    unfolding quote_def Let_def by simp
qed

theorem quote_saturates_witness:
  "curve_new example_points = Inr example_valid \<and>
   fst (hd example_valid) \<le> 100 \<and> 100 \<le> fst (last example_valid) \<and>
   remaining_segments QuoteToBase 100 (segments upper_liquidity example_valid)
     = [(100, 200, 500000), (200, 300, 1000)] \<and>
   total_depth QuoteToBase 100 [(100, 200, 500000), (200, 300, 1000)] = 50100000 \<and>
   (50100000 :: rat) < of_nat (1000000000 - 1000000000 * 10000000 div 1000000000) \<and>
   max_output QuoteToBase 100 [(100, 200, 500000), (200, 300, 1000)] = 7505 / 3 \<and>
   outer_boundary QuoteToBase example_valid = 300 \<and>
   (\<exists>q. example_quote QuoteToBase 20 20 100 = Inr q \<and>
        amount_out q = 7505 / 3 \<and> ending_sqrt_price q = 300) \<and>
   fst (hd example_valid) \<le> 250 \<and> 250 \<le> fst (last example_valid) \<and>
   remaining_segments BaseToQuote 250 (segments upper_liquidity example_valid)
     = [(200, 300, 1000), (100, 200, 500000)] \<and>
   total_depth BaseToQuote 250 [(200, 300, 1000), (100, 200, 500000)] = 2501 \<and>
   max_output BaseToQuote 250 [(200, 300, 1000), (100, 200, 500000)] = 50050000 \<and>
   outer_boundary BaseToQuote example_valid = 100 \<and>
   (\<exists>q. example_quote BaseToQuote 20 20 250 = Inr q \<and>
        amount_out q = 50050000 \<and> ending_sqrt_price q = 100)"
proof -
  have valid: "curve_new example_points = Inr example_valid"
    by (simp add: curve_new_def example_points_def example_valid_def)
  have up_in: "fst (hd example_valid) \<le> 100" "100 \<le> fst (last example_valid)"
    and down_in: "fst (hd example_valid) \<le> 250" "250 \<le> fst (last example_valid)"
    by (simp_all add: example_valid_def)
  have up_todo: "[(100, 200, 500000), (200, 300, 1000)]
      = remaining_segments QuoteToBase (of_nat 100) (segments upper_liquidity example_valid)"
    and down_todo: "[(200, 300, 1000), (100, 200, 500000)]
      = remaining_segments BaseToQuote (of_nat 250) (segments upper_liquidity example_valid)"
    by (simp_all add: remaining_segments_def example_valid_def upper_liquidity_def)
  have net: "(990000000 :: nat) = 1000000000 - 1000000000 * 10000000 div 1000000000"
    by simp
  have up_depth: "total_depth QuoteToBase (of_nat 100) [(100, 200, 500000), (200, 300, 1000)]
      < of_nat 990000000"
    and down_depth:
      "total_depth BaseToQuote (of_nat 250) [(200, 300, 1000), (100, 200, 500000)]
      < of_nat 990000000"
    by (simp_all add: total_depth_def)
  have computed:
    "total_depth QuoteToBase 100 [(100, 200, 500000), (200, 300, 1000)] = 50100000"
    "max_output QuoteToBase 100 [(100, 200, 500000), (200, 300, 1000)] = 7505 / 3"
    "outer_boundary QuoteToBase example_valid = 300"
    "total_depth BaseToQuote 250 [(200, 300, 1000), (100, 200, 500000)] = 2501"
    "max_output BaseToQuote 250 [(200, 300, 1000), (100, 200, 500000)] = 50050000"
    "outer_boundary BaseToQuote example_valid = 100"
    by (simp_all add: total_depth_def max_output_def outer_boundary_def example_valid_def)
  from quote_saturates [OF valid up_in up_todo net up_depth,
      where protocol_percent = 20 and referral_percent = 20]
    quote_saturates [OF valid down_in down_todo net down_depth,
      where protocol_percent = 20 and referral_percent = 20]
    valid up_in down_in up_todo [symmetric] down_todo [symmetric] computed
  show ?thesis
    by (simp add: example_quote_def)
qed

end
